theory Spec2Isabelle
  imports Main
begin

section \<open>Python values, exceptions and the world\<close>

text \<open>
  Configuration values are the scalars a parsed configuration document holds
  (floating point numbers are left out). Adapter attributes hold whatever the
  configuration supplied: Python does not enforce the \<open>str\<close> annotations.
\<close>

datatype pyval = PNone | PBool bool | PInt int | PStr string

type_synonym config = "string \<rightharpoonup> pyval"

function string_of_nat :: "nat \<Rightarrow> string" where
  "string_of_nat n =
     (if n < 10 then [''0123456789'' ! n]
      else string_of_nat (n div 10) @ [''0123456789'' ! (n mod 10)])"
  by pat_completeness auto
termination
  by (relation "measure (\<lambda>n. n)") auto

declare string_of_nat.simps [simp del]

text \<open>\<open>py_str v\<close> is Python's \<open>str(v)\<close>, which is what an f-string inserts.\<close>

fun py_str :: "pyval \<Rightarrow> string" where
  "py_str PNone = ''None''"
| "py_str (PBool b) = (if b then ''True'' else ''False'')"
| "py_str (PInt i) = (if i < 0 then ''-'' @ string_of_nat (nat (- i)) else string_of_nat (nat i))"
| "py_str (PStr s) = s"

text \<open>Truthiness, as in \<open>if device:\<close> and \<open>temp_dir or ...\<close>.\<close>

fun truthy :: "pyval \<Rightarrow> bool" where
  "truthy PNone = False"
| "truthy (PBool b) = b"
| "truthy (PInt i) = (i \<noteq> 0)"
| "truthy (PStr s) = (s \<noteq> [])"

text \<open>
  Exceptions are values. The type ranges over instances of Python's \<open>Exception\<close>,
  the class every \<open>except Exception\<close> clause of the source catches. The classes
  the source raises itself have a constructor each, with the message; exceptions of
  the third-party libraries (HTTP client, cloud SDKs, model runtimes) are
  \<open>LibraryError\<close> with the class name and the message. What lies outside
  \<open>Exception\<close> (\<open>KeyboardInterrupt\<close>, \<open>SystemExit\<close>: signals to the
  interpreter, not failures of a component) is not modelled.
\<close>

datatype exn =
    ValueError string
  | TypeError string
  | ImportError string
  | NotImplementedError string
  | RuntimeError string
  | AttributeError string
  | KeyError string
  | OSError string
  | FileNotFoundError string
  | CalledProcessError nat string string
  | LibraryError string string

text \<open>A name between single quotes, as Python's messages and \<open>repr\<close> show it (for a
  name without quote, backslash or control character).\<close>

definition quoted :: "string \<Rightarrow> string" where
  "quoted name = [CHR 0x27] @ name @ [CHR 0x27]"

text \<open>\<open>exn_str e\<close> is \<open>str(e)\<close>; a \<open>KeyError\<close> carries the key and shows its
  \<open>repr\<close>; a \<open>CalledProcessError\<close> carries its exit status, the decoded standard
  error and its own rendering.\<close>

fun exn_str :: "exn \<Rightarrow> string" where
  "exn_str (ValueError m) = m"
| "exn_str (TypeError m) = m"
| "exn_str (ImportError m) = m"
| "exn_str (NotImplementedError m) = m"
| "exn_str (RuntimeError m) = m"
| "exn_str (AttributeError m) = m"
| "exn_str (KeyError k) = quoted k"
| "exn_str (OSError m) = m"
| "exn_str (FileNotFoundError m) = m"
| "exn_str (CalledProcessError rc err m) = m"
| "exn_str (LibraryError c m) = m"

datatype json =
    JNull | JBool bool | JNum int | JStr string
  | JList "json list" | JObj "(string \<times> json) list"

text \<open>What a file holds: raw bytes, or the PCM wave file the probe writes
  (channels, sample width in bytes, frame rate, frame bytes).\<close>

datatype content = Raw "nat list" | Wave nat nat nat "nat list"

text \<open>Calls that leave the process: HTTP requests of the \<open>requests\<close> session and
  the speech call of the OpenAI client.\<close>

datatype backend_call =
    HttpPost string "(string \<times> pyval) list" "(string \<times> pyval) list"
  | HttpGet string "(string \<times> pyval) list"
  | SpeechCreate nat "(string \<times> pyval) list"

record response =
  resp_status :: nat
  resp_reason :: string
  resp_url :: string
  resp_content :: "nat list"
  resp_json :: "exn + json"

datatype level = DEBUG | INFO | WARNING | ERROR

record world =
  files :: "string \<rightharpoonup> content"
  environ :: "string \<rightharpoonup> string"
  logs :: "(level \<times> string) list"
  calls :: "backend_call list"
  procs :: "string list list"

datatype fs_op = MkTemp string | OpenWrite string | Unlink string

text \<open>
  Everything outside the repository is a parameter: whether a module imports, what
  the library constructors return, what the backend answers to a call (it may depend
  on the history kept in the world),
  which file operations fail, which name a temporary file gets, and how a
  subprocess run with \<open>check=True\<close> ends (\<open>None\<close> is exit status 0).
\<close>

record env =
  env_import :: "string \<Rightarrow> exn option"
  env_load_model :: "pyval \<Rightarrow> pyval option \<Rightarrow> exn + nat"
  env_WhisperModel :: "pyval \<Rightarrow> pyval \<Rightarrow> pyval \<Rightarrow> config \<Rightarrow> exn + nat"
  env_OpenAI :: "pyval \<Rightarrow> exn + nat"
  env_SpeechClient :: "exn + nat"
  env_backend :: "backend_call \<Rightarrow> world \<Rightarrow> exn + response"
  env_fs_fault :: "fs_op \<Rightarrow> world \<Rightarrow> exn option"
  env_temp_name :: "string \<Rightarrow> world \<Rightarrow> string"
  env_gettempdir :: string
  env_subprocess :: "string list \<Rightarrow> world \<Rightarrow> exn option"
  env_ffmpeg_output :: "string list \<Rightarrow> world \<Rightarrow> content"

subsection \<open>Statements that may raise\<close>

text \<open>A statement runs in a state and ends with a value or with an exception; the
  state changes made before a raise stay.\<close>

type_synonym ('s, 'a) prog = "'s \<Rightarrow> (exn + 'a) \<times> 's"

definition ret :: "'a \<Rightarrow> ('s, 'a) prog" where
  "ret x s = (Inr x, s)"

definition raise :: "exn \<Rightarrow> ('s, 'a) prog" where
  "raise e s = (Inl e, s)"

definition bind :: "('s, 'a) prog \<Rightarrow> ('a \<Rightarrow> ('s, 'b) prog) \<Rightarrow> ('s, 'b) prog" where
  "bind m f s = (case m s of (Inl e, s') \<Rightarrow> (Inl e, s') | (Inr x, s') \<Rightarrow> f x s')"

text \<open>\<open>try: m  except Exception as e: h e\<close>.\<close>

definition try_except :: "('s, 'a) prog \<Rightarrow> (exn \<Rightarrow> ('s, 'a) prog) \<Rightarrow> ('s, 'a) prog" where
  "try_except m h s = (case m s of (Inl e, s') \<Rightarrow> h e s' | (Inr x, s') \<Rightarrow> (Inr x, s'))"

text \<open>A statement on the world, run where local variables are part of the state.\<close>

definition lift :: "(world, 'a) prog \<Rightarrow> ('l \<times> world, 'a) prog" where
  "lift m s = (case m (snd s) of (r, w') \<Rightarrow> (r, (fst s, w')))"

definition log :: "level \<Rightarrow> string \<Rightarrow> (world, unit) prog" where
  "log lv msg w = (Inr (), w\<lparr>logs := logs w @ [(lv, msg)]\<rparr>)"

definition lift_result :: "exn + 'a \<Rightarrow> ('s, 'a) prog" where
  "lift_result r s = (r, s)"

section \<open>providers.py: the contracts and ProviderFactory\<close>

text \<open>The abstract methods of the two contracts.\<close>

definition STTProvider_abstract :: "string list" where
  "STTProvider_abstract = [''transcribe'', ''transcribe_stream'']"

definition TTSProvider_abstract :: "string list" where
  "TTSProvider_abstract = [''synthesize'', ''synthesize_stream'', ''get_voices'']"

text \<open>
  \<open>ProviderFactory\<close> holds two class-level dictionaries from a name to a provider
  class. The registry accepts any callable, so the class types are parameters.
\<close>

record ('sc, 'tc) provider_factory =
  stt_providers :: "string \<rightharpoonup> 'sc"
  tts_providers :: "string \<rightharpoonup> 'tc"

definition ProviderFactory :: "('sc, 'tc) provider_factory" where
  "ProviderFactory = \<lparr>stt_providers = Map.empty, tts_providers = Map.empty\<rparr>"

definition register_stt ::
  "string \<Rightarrow> 'sc \<Rightarrow> ('sc, 'tc) provider_factory \<Rightarrow> ('sc, 'tc) provider_factory" where
  "register_stt name provider_class cls =
     cls\<lparr>stt_providers := (stt_providers cls)(name \<mapsto> provider_class)\<rparr>"

definition register_tts ::
  "string \<Rightarrow> 'tc \<Rightarrow> ('sc, 'tc) provider_factory \<Rightarrow> ('sc, 'tc) provider_factory" where
  "register_tts name provider_class cls =
     cls\<lparr>tts_providers := (tts_providers cls)(name \<mapsto> provider_class)\<rparr>"

text \<open>\<open>call c config\<close> is \<open>provider_class(**config)\<close>.\<close>

definition create_stt ::
  "('sc \<Rightarrow> config \<Rightarrow> (world, 'si) prog) \<Rightarrow> ('sc, 'tc) provider_factory \<Rightarrow>
   string \<Rightarrow> config \<Rightarrow> (world, 'si) prog" where
  "create_stt call cls provider_name config =
     (case stt_providers cls provider_name of
        None \<Rightarrow> raise (ValueError (''Unknown STT provider: '' @ provider_name))
      | Some provider_class \<Rightarrow> call provider_class config)"

definition create_tts ::
  "('tc \<Rightarrow> config \<Rightarrow> (world, 'ti) prog) \<Rightarrow> ('sc, 'tc) provider_factory \<Rightarrow>
   string \<Rightarrow> config \<Rightarrow> (world, 'ti) prog" where
  "create_tts call cls provider_name config =
     (case tts_providers cls provider_name of
        None \<Rightarrow> raise (ValueError (''Unknown TTS provider: '' @ provider_name))
      | Some provider_class \<Rightarrow> call provider_class config)"

subsection \<open>Calling a class with a configuration\<close>

text \<open>Binding \<open>**config\<close> to a signature: a named parameter takes the entry of its
  name or its default, \<open>**kwargs\<close> takes the entries no parameter names.\<close>

definition arg :: "config \<Rightarrow> string \<Rightarrow> pyval \<Rightarrow> pyval" where
  "arg config name dflt = (case config name of None \<Rightarrow> dflt | Some v \<Rightarrow> v)"

definition required :: "string \<Rightarrow> config \<Rightarrow> string \<Rightarrow> ('s, pyval) prog" where
  "required cname config name =
     (case config name of
        None \<Rightarrow> raise (TypeError (cname @ ''.__init__() missing 1 required positional argument: '' @
                  quoted name))
      | Some v \<Rightarrow> ret v)"

definition rest :: "config \<Rightarrow> string list \<Rightarrow> config" where
  "rest config names = config |` (- set names)"

text \<open>\<open>try: import m  except ImportError: raise ImportError(hint)\<close>; any other
  exception of the import propagates as it is.\<close>

definition import_or :: "env \<Rightarrow> string \<Rightarrow> string \<Rightarrow> ('s, unit) prog" where
  "import_or E m hint =
     (case env_import E m of
        None \<Rightarrow> ret ()
      | Some (ImportError x) \<Rightarrow> raise (ImportError hint)
      | Some e \<Rightarrow> raise e)"

section \<open>stt_providers.py\<close>

datatype stt_class = WhisperSTT | FasterWhisperSTT | OpenAIWhisperSTT | GoogleCloudSTT

record whisper_stt =
  ws_model_name :: pyval
  ws_model :: nat

record faster_whisper_stt =
  fw_model :: nat

record openai_whisper_stt =
  ow_client :: nat
  ow_model :: pyval

record google_cloud_stt =
  gc_client :: nat
  gc_language :: pyval

datatype stt_instance =
    WhisperSTT_obj whisper_stt
  | FasterWhisperSTT_obj faster_whisper_stt
  | OpenAIWhisperSTT_obj openai_whisper_stt
  | GoogleCloudSTT_obj google_cloud_stt

fun stt_class_of :: "stt_instance \<Rightarrow> stt_class" where
  "stt_class_of (WhisperSTT_obj x) = WhisperSTT"
| "stt_class_of (FasterWhisperSTT_obj x) = FasterWhisperSTT"
| "stt_class_of (OpenAIWhisperSTT_obj x) = OpenAIWhisperSTT"
| "stt_class_of (GoogleCloudSTT_obj x) = GoogleCloudSTT"

fun stt_class_name :: "stt_class \<Rightarrow> string" where
  "stt_class_name WhisperSTT = ''WhisperSTT''"
| "stt_class_name FasterWhisperSTT = ''FasterWhisperSTT''"
| "stt_class_name OpenAIWhisperSTT = ''OpenAIWhisperSTT''"
| "stt_class_name GoogleCloudSTT = ''GoogleCloudSTT''"

text \<open>The methods each class body defines.\<close>

fun stt_class_methods :: "stt_class \<Rightarrow> string list" where
  "stt_class_methods WhisperSTT = [''__init__'', ''transcribe'', ''transcribe_stream'']"
| "stt_class_methods FasterWhisperSTT = [''__init__'', ''transcribe'', ''transcribe_stream'']"
| "stt_class_methods OpenAIWhisperSTT = [''__init__'', ''transcribe'', ''transcribe_stream'']"
| "stt_class_methods GoogleCloudSTT = [''__init__'', ''transcribe'', ''transcribe_stream'']"

definition set_environ :: "string \<Rightarrow> string \<Rightarrow> (world, unit) prog" where
  "set_environ k v w = (Inr (), w\<lparr>environ := (environ w)(k \<mapsto> v)\<rparr>)"

definition WhisperSTT_init :: "env \<Rightarrow> config \<Rightarrow> (world, whisper_stt) prog" where
  "WhisperSTT_init E config =
     (let model = arg config ''model'' (PStr ''tiny'');
          device = arg config ''device'' PNone
      in bind (set_environ ''PYTHONIOENCODING'' ''utf-8'') (\<lambda>_.
         bind (set_environ ''KMP_DUPLICATE_LIB_OK'' ''TRUE'') (\<lambda>_.
         bind (import_or E ''whisper'' ''whisper not installed. Run: pip install openai-whisper'') (\<lambda>_.
         bind (lift_result
                 (if truthy device then env_load_model E model (Some device)
                  else env_load_model E model None)) (\<lambda>m.
         ret \<lparr>ws_model_name = model, ws_model = m\<rparr>)))))"

definition FasterWhisperSTT_init :: "env \<Rightarrow> config \<Rightarrow> (world, faster_whisper_stt) prog" where
  "FasterWhisperSTT_init E config =
     (let model = arg config ''model'' (PStr ''base'');
          device = arg config ''device'' (PStr ''cpu'');
          compute_type = arg config ''compute_type'' (PStr ''int8'');
          kwargs = rest config [''model'', ''device'', ''compute_type'']
      in bind (import_or E ''faster_whisper''
                 ''faster-whisper not installed. Run: pip install faster-whisper'') (\<lambda>_.
         bind (lift_result (env_WhisperModel E model device compute_type kwargs)) (\<lambda>m.
         ret \<lparr>fw_model = m\<rparr>)))"

definition OpenAIWhisperSTT_init :: "env \<Rightarrow> config \<Rightarrow> (world, openai_whisper_stt) prog" where
  "OpenAIWhisperSTT_init E config =
     bind (required ''OpenAIWhisperSTT'' config ''api_key'') (\<lambda>api_key.
     let model = arg config ''model'' (PStr ''whisper-1'')
     in bind (import_or E ''openai'' ''openai not installed. Run: pip install openai'') (\<lambda>_.
        bind (lift_result (env_OpenAI E api_key)) (\<lambda>c.
        ret \<lparr>ow_client = c, ow_model = model\<rparr>)))"

definition GoogleCloudSTT_init :: "env \<Rightarrow> config \<Rightarrow> (world, google_cloud_stt) prog" where
  "GoogleCloudSTT_init E config =
     bind (required ''GoogleCloudSTT'' config ''api_key'') (\<lambda>api_key.
     let language = arg config ''language'' (PStr ''en-US'')
     in bind (import_or E ''google.cloud''
                ''google-cloud-speech not installed. Run: pip install google-cloud-speech'') (\<lambda>_.
        bind (lift_result (env_SpeechClient E)) (\<lambda>c.
        ret \<lparr>gc_client = c, gc_language = language\<rparr>)))"

fun stt_init :: "env \<Rightarrow> stt_class \<Rightarrow> config \<Rightarrow> (world, stt_instance) prog" where
  "stt_init E WhisperSTT config = bind (WhisperSTT_init E config) (\<lambda>x. ret (WhisperSTT_obj x))"
| "stt_init E FasterWhisperSTT config =
     bind (FasterWhisperSTT_init E config) (\<lambda>x. ret (FasterWhisperSTT_obj x))"
| "stt_init E OpenAIWhisperSTT config =
     bind (OpenAIWhisperSTT_init E config) (\<lambda>x. ret (OpenAIWhisperSTT_obj x))"
| "stt_init E GoogleCloudSTT config =
     bind (GoogleCloudSTT_init E config) (\<lambda>x. ret (GoogleCloudSTT_obj x))"

text \<open>
  \<open>provider_class(**config)\<close>: a class that leaves an abstract method undefined
  cannot be instantiated; then the configuration is bound to \<open>__init__\<close>, where an
  entry named \<open>self\<close> collides with the instance; then \<open>__init__\<close> runs, and the
  instance is the value of the call only when \<open>__init__\<close> returns.
\<close>

definition call_stt :: "env \<Rightarrow> stt_class \<Rightarrow> config \<Rightarrow> (world, stt_instance) prog" where
  "call_stt E c config =
     (if \<not> set STTProvider_abstract \<subseteq> set (stt_class_methods c)
      then raise (TypeError ''Can't instantiate abstract class'')
      else if config ''self'' \<noteq> None
      then raise (TypeError (stt_class_name c @ ''.__init__() got multiple values for argument '' @
                    quoted ''self''))
      else stt_init E c config)"




type_synonym transcription = "string \<rightharpoonup> pyval"






section \<open>tts_providers.py\<close>

datatype tts_class = KokoroTTS | Qwen3TTS | OpenAITTS | ElevenLabsTTS

record kokoro_tts =
  kk_base_url :: pyval
  kk_voice :: pyval
  kk_format :: pyval

record qwen3_tts =
  q3_model_path :: pyval
  q3_device :: pyval
  q3_voice :: pyval
  q3_format :: pyval

record openai_tts =
  oa_client :: nat
  oa_model :: pyval
  oa_voice :: pyval
  oa_format :: pyval

record elevenlabs_tts =
  el_api_key :: pyval
  el_voice_id :: pyval
  el_model :: pyval
  el_format :: pyval

datatype tts_instance =
    KokoroTTS_obj kokoro_tts
  | Qwen3TTS_obj qwen3_tts
  | OpenAITTS_obj openai_tts
  | ElevenLabsTTS_obj elevenlabs_tts

fun tts_class_of :: "tts_instance \<Rightarrow> tts_class" where
  "tts_class_of (KokoroTTS_obj x) = KokoroTTS"
| "tts_class_of (Qwen3TTS_obj x) = Qwen3TTS"
| "tts_class_of (OpenAITTS_obj x) = OpenAITTS"
| "tts_class_of (ElevenLabsTTS_obj x) = ElevenLabsTTS"

fun tts_class_name :: "tts_class \<Rightarrow> string" where
  "tts_class_name KokoroTTS = ''KokoroTTS''"
| "tts_class_name Qwen3TTS = ''Qwen3TTS''"
| "tts_class_name OpenAITTS = ''OpenAITTS''"
| "tts_class_name ElevenLabsTTS = ''ElevenLabsTTS''"

fun tts_class_methods :: "tts_class \<Rightarrow> string list" where
  "tts_class_methods KokoroTTS =
     [''__init__'', ''synthesize'', ''synthesize_stream'', ''get_voices'']"
| "tts_class_methods Qwen3TTS =
     [''__init__'', ''synthesize'', ''synthesize_stream'', ''get_voices'']"
| "tts_class_methods OpenAITTS =
     [''__init__'', ''synthesize'', ''synthesize_stream'', ''get_voices'']"
| "tts_class_methods ElevenLabsTTS =
     [''__init__'', ''synthesize'', ''synthesize_stream'', ''get_voices'']"

subsection \<open>Constructors\<close>

text \<open>The \<open>requests.Session()\<close> an adapter keeps has no state of its own here: its
  requests go to the backend of the environment.\<close>

definition KokoroTTS_init :: "env \<Rightarrow> config \<Rightarrow> (world, kokoro_tts) prog" where
  "KokoroTTS_init E config =
     (let base_url = arg config ''base_url'' (PStr ''http://localhost:8880/v1'');
          voice = arg config ''voice'' (PStr ''af_bella'');
          format = arg config ''format'' (PStr ''ogg'')
      in bind (import_or E ''requests'' ''requests not installed. Run: pip install requests'') (\<lambda>_.
         ret \<lparr>kk_base_url = base_url, kk_voice = voice, kk_format = format\<rparr>))"

text \<open>The placeholder assigns its attributes and then raises: the call never has a
  value.\<close>

definition Qwen3TTS_init :: "env \<Rightarrow> config \<Rightarrow> (world, qwen3_tts) prog" where
  "Qwen3TTS_init E config =
     (let self = \<lparr>q3_model_path = arg config ''model_path'' PNone,
                  q3_device = arg config ''device'' (PStr ''cpu''),
                  q3_voice = arg config ''voice'' (PStr ''default''),
                  q3_format = arg config ''format'' (PStr ''wav'')\<rparr>
      in raise (NotImplementedError ''Qwen3 TTS implementation pending model release''))"

definition OpenAITTS_init :: "env \<Rightarrow> config \<Rightarrow> (world, openai_tts) prog" where
  "OpenAITTS_init E config =
     bind (required ''OpenAITTS'' config ''api_key'') (\<lambda>api_key.
     let model = arg config ''model'' (PStr ''tts-1'');
         voice = arg config ''voice'' (PStr ''alloy'');
         format = arg config ''format'' (PStr ''mp3'')
     in bind (import_or E ''openai'' ''openai not installed. Run: pip install openai'') (\<lambda>_.
        bind (lift_result (env_OpenAI E api_key)) (\<lambda>c.
        ret \<lparr>oa_client = c, oa_model = model, oa_voice = voice, oa_format = format\<rparr>)))"

definition ElevenLabsTTS_init :: "env \<Rightarrow> config \<Rightarrow> (world, elevenlabs_tts) prog" where
  "ElevenLabsTTS_init E config =
     bind (required ''ElevenLabsTTS'' config ''api_key'') (\<lambda>api_key.
     let voice_id = arg config ''voice_id'' (PStr ''default'');
         model = arg config ''model'' (PStr ''eleven_multilingual_v2'');
         format = arg config ''format'' (PStr ''mp3'')
     in bind (import_or E ''requests'' ''requests not installed. Run: pip install requests'') (\<lambda>_.
        ret \<lparr>el_api_key = api_key, el_voice_id = voice_id, el_model = model,
             el_format = format\<rparr>))"

fun tts_init :: "env \<Rightarrow> tts_class \<Rightarrow> config \<Rightarrow> (world, tts_instance) prog" where
  "tts_init E KokoroTTS config = bind (KokoroTTS_init E config) (\<lambda>x. ret (KokoroTTS_obj x))"
| "tts_init E Qwen3TTS config = bind (Qwen3TTS_init E config) (\<lambda>x. ret (Qwen3TTS_obj x))"
| "tts_init E OpenAITTS config = bind (OpenAITTS_init E config) (\<lambda>x. ret (OpenAITTS_obj x))"
| "tts_init E ElevenLabsTTS config =
     bind (ElevenLabsTTS_init E config) (\<lambda>x. ret (ElevenLabsTTS_obj x))"

definition call_tts :: "env \<Rightarrow> tts_class \<Rightarrow> config \<Rightarrow> (world, tts_instance) prog" where
  "call_tts E c config =
     (if \<not> set TTSProvider_abstract \<subseteq> set (tts_class_methods c)
      then raise (TypeError ''Can't instantiate abstract class'')
      else if config ''self'' \<noteq> None
      then raise (TypeError (tts_class_name c @ ''.__init__() got multiple values for argument '' @
                    quoted ''self''))
      else tts_init E c config)"

text \<open>The registry once the package is imported: \<open>stt_providers.py\<close> registers its
  four classes, then \<open>tts_providers.py\<close> its four.\<close>

definition loaded_factory :: "(stt_class, tts_class) provider_factory" where
  "loaded_factory =
     register_tts ''elevenlabs'' ElevenLabsTTS
    (register_tts ''openai'' OpenAITTS
    (register_tts ''qwen3'' Qwen3TTS
    (register_tts ''kokoro'' KokoroTTS
    (register_stt ''google'' GoogleCloudSTT
    (register_stt ''openai'' OpenAIWhisperSTT
    (register_stt ''faster-whisper'' FasterWhisperSTT
    (register_stt ''whisper'' WhisperSTT ProviderFactory)))))))"

subsection \<open>Backend calls and file writes\<close>

text \<open>A call is recorded and answered by the backend; a connection failure is the
  exception the backend answers with.\<close>

text \<open>The JSON body or keyword arguments a call carries.\<close>

fun call_payload :: "backend_call \<Rightarrow> (string \<times> pyval) list" where
  "call_payload (HttpPost url headers body) = body"
| "call_payload (HttpGet url headers) = []"
| "call_payload (SpeechCreate client kwargs) = kwargs"

definition send :: "env \<Rightarrow> backend_call \<Rightarrow> (world, response) prog" where
  "send E c w = (env_backend E c w, w\<lparr>calls := calls w @ [c]\<rparr>)"

text \<open>
  \<open>Response.raise_for_status\<close> of the HTTP client library the adapters use: a
  status from 400 to 499 is a client error and one from 500 to 599 a server error, and
  these raise \<open>HTTPError\<close>; every other status, 1xx and 3xx included, passes.
\<close>

definition status_error :: "response \<Rightarrow> exn option" where
  "status_error r =
     (if 400 \<le> resp_status r \<and> resp_status r < 500
      then Some (LibraryError ''HTTPError''
             (string_of_nat (resp_status r) @ '' Client Error: '' @ resp_reason r @
              '' for url: '' @ resp_url r))
      else if 500 \<le> resp_status r \<and> resp_status r < 600
      then Some (LibraryError ''HTTPError''
             (string_of_nat (resp_status r) @ '' Server Error: '' @ resp_reason r @
              '' for url: '' @ resp_url r))
      else None)"

definition raise_for_status :: "response \<Rightarrow> ('s, unit) prog" where
  "raise_for_status r = (case status_error r of None \<Rightarrow> ret () | Some e \<Rightarrow> raise e)"

text \<open>\<open>with open(path, "wb") as f: f.write(data)\<close>.\<close>

definition write_file :: "env \<Rightarrow> string \<Rightarrow> content \<Rightarrow> (world, unit) prog" where
  "write_file E path data w =
     (case env_fs_fault E (OpenWrite path) w of
        Some e \<Rightarrow> (Inl e, w)
      | None \<Rightarrow> (Inr (), w\<lparr>files := (files w)(path \<mapsto> data)\<rparr>))"

subsection \<open>synthesize\<close>

definition KokoroTTS_synthesize ::
  "env \<Rightarrow> kokoro_tts \<Rightarrow> string \<Rightarrow> string \<Rightarrow> config \<Rightarrow> (world, unit) prog" where
  "KokoroTTS_synthesize E self text output_file kwargs =
     (let voice = arg kwargs ''voice'' (kk_voice self);
          format = arg kwargs ''format'' (kk_format self)
      in bind (send E (HttpPost (py_str (kk_base_url self) @ ''/audio/speech'') []
                 [(''model'', PStr ''kokoro''), (''input'', PStr text), (''voice'', voice),
                  (''response_format'', format)])) (\<lambda>response.
         bind (raise_for_status response) (\<lambda>_.
         write_file E output_file (Raw (resp_content response)))))"

definition Qwen3TTS_synthesize ::
  "env \<Rightarrow> qwen3_tts \<Rightarrow> string \<Rightarrow> string \<Rightarrow> config \<Rightarrow> (world, unit) prog" where
  "Qwen3TTS_synthesize E self text output_file kwargs =
     raise (NotImplementedError ''Qwen3 TTS implementation pending model release'')"

text \<open>\<open>response.stream_to_file(output_file)\<close> of the OpenAI client is taken as the
  write of the response's bytes.\<close>

definition OpenAITTS_synthesize ::
  "env \<Rightarrow> openai_tts \<Rightarrow> string \<Rightarrow> string \<Rightarrow> config \<Rightarrow> (world, unit) prog" where
  "OpenAITTS_synthesize E self text output_file kwargs =
     (let voice = arg kwargs ''voice'' (oa_voice self);
          model = arg kwargs ''model'' (oa_model self);
          response_format = arg kwargs ''format'' (oa_format self)
      in bind (send E (SpeechCreate (oa_client self)
                 [(''model'', model), (''voice'', voice), (''input'', PStr text),
                  (''response_format'', response_format)])) (\<lambda>response.
         write_file E output_file (Raw (resp_content response))))"

definition ElevenLabsTTS_synthesize ::
  "env \<Rightarrow> elevenlabs_tts \<Rightarrow> string \<Rightarrow> string \<Rightarrow> config \<Rightarrow> (world, unit) prog" where
  "ElevenLabsTTS_synthesize E self text output_file kwargs =
     (let voice_id = arg kwargs ''voice_id'' (el_voice_id self)
      in bind (send E (HttpPost (''https://api.elevenlabs.io/v1/text-to-speech/'' @ py_str voice_id)
                 [(''xi-api-key'', el_api_key self), (''Content-Type'', PStr ''application/json'')]
                 [(''text'', PStr text), (''model_id'', el_model self),
                  (''output_format'', el_format self)])) (\<lambda>response.
         bind (raise_for_status response) (\<lambda>_.
         write_file E output_file (Raw (resp_content response)))))"

fun tts_synthesize ::
  "env \<Rightarrow> tts_instance \<Rightarrow> string \<Rightarrow> string \<Rightarrow> config \<Rightarrow> (world, unit) prog" where
  "tts_synthesize E (KokoroTTS_obj x) = KokoroTTS_synthesize E x"
| "tts_synthesize E (Qwen3TTS_obj x) = Qwen3TTS_synthesize E x"
| "tts_synthesize E (OpenAITTS_obj x) = OpenAITTS_synthesize E x"
| "tts_synthesize E (ElevenLabsTTS_obj x) = ElevenLabsTTS_synthesize E x"

subsection \<open>get_voices\<close>

text \<open>\<open>data.get(key, dflt)\<close> on a decoded JSON value: only an object has \<open>get\<close>; a
  repeated key holds its last value.\<close>

fun dict_get :: "json \<Rightarrow> string \<Rightarrow> json \<Rightarrow> exn + json" where
  "dict_get (JObj kvs) k d = Inr (case map_of (rev kvs) k of None \<Rightarrow> d | Some v \<Rightarrow> v)"
| "dict_get j k d = Inl (AttributeError ''get'')"

text \<open>\<open>for voice in j\<close>: a list gives its items, an object its keys, a string its
  characters; nothing else is iterable.\<close>

fun py_iter :: "json \<Rightarrow> exn + json list" where
  "py_iter (JList xs) = Inr xs"
| "py_iter (JObj kvs) = Inr (map JStr (rev (remdups (rev (map fst kvs)))))"
| "py_iter (JStr s) = Inr (map (\<lambda>c. JStr [c]) s)"
| "py_iter j = Inl (TypeError ''object is not iterable'')"

text \<open>\<open>voice[key]\<close> with a string key.\<close>

fun subscript :: "json \<Rightarrow> string \<Rightarrow> exn + json" where
  "subscript (JObj kvs) k =
     (case map_of (rev kvs) k of None \<Rightarrow> Inl (KeyError k) | Some v \<Rightarrow> Inr v)"
| "subscript j k = Inl (TypeError ''bad subscript'')"

text \<open>A list comprehension stops at the first item that raises.\<close>

fun map_result :: "('a \<Rightarrow> exn + 'b) \<Rightarrow> 'a list \<Rightarrow> exn + 'b list" where
  "map_result f [] = Inr []"
| "map_result f (x # xs) =
     (case f x of
        Inl e \<Rightarrow> Inl e
      | Inr y \<Rightarrow> (case map_result f xs of Inl e \<Rightarrow> Inl e | Inr ys \<Rightarrow> Inr (y # ys)))"

definition KokoroTTS_get_voices :: "env \<Rightarrow> kokoro_tts \<Rightarrow> (world, json) prog" where
  "KokoroTTS_get_voices E self =
     bind (send E (HttpGet (py_str (kk_base_url self) @ ''/audio/voices'') [])) (\<lambda>response.
     bind (raise_for_status response) (\<lambda>_.
     bind (lift_result (resp_json response)) (\<lambda>data.
     lift_result (dict_get data ''voices'' (JList [])))))"

definition Qwen3TTS_get_voices :: "env \<Rightarrow> qwen3_tts \<Rightarrow> (world, json) prog" where
  "Qwen3TTS_get_voices E self =
     raise (NotImplementedError ''Qwen3 TTS implementation pending model release'')"

definition OpenAITTS_get_voices :: "env \<Rightarrow> openai_tts \<Rightarrow> (world, json) prog" where
  "OpenAITTS_get_voices E self =
     ret (JList [JStr ''alloy'', JStr ''echo'', JStr ''fable'', JStr ''onyx'', JStr ''nova'',
                 JStr ''shimmer''])"

definition ElevenLabsTTS_get_voices :: "env \<Rightarrow> elevenlabs_tts \<Rightarrow> (world, json) prog" where
  "ElevenLabsTTS_get_voices E self =
     bind (send E (HttpGet ''https://api.elevenlabs.io/v1/voices''
             [(''xi-api-key'', el_api_key self)])) (\<lambda>response.
     bind (raise_for_status response) (\<lambda>_.
     bind (lift_result (resp_json response)) (\<lambda>data.
     bind (lift_result (dict_get data ''voices'' (JList []))) (\<lambda>voices.
     bind (lift_result (py_iter voices)) (\<lambda>items.
     bind (lift_result (map_result (\<lambda>voice. subscript voice ''voice_id'') items)) (\<lambda>ids.
     ret (JList ids)))))))"

fun tts_get_voices :: "env \<Rightarrow> tts_instance \<Rightarrow> (world, json) prog" where
  "tts_get_voices E (KokoroTTS_obj x) = KokoroTTS_get_voices E x"
| "tts_get_voices E (Qwen3TTS_obj x) = Qwen3TTS_get_voices E x"
| "tts_get_voices E (OpenAITTS_obj x) = OpenAITTS_get_voices E x"
| "tts_get_voices E (ElevenLabsTTS_obj x) = ElevenLabsTTS_get_voices E x"

section \<open>audio_processor.py\<close>

record audio_processor =
  ap_temp_dir :: string
  ap_ffmpeg_available :: bool

text \<open>\<open>subprocess.run(cmd, check=True, capture_output=True)\<close>.\<close>

definition subprocess_run :: "env \<Rightarrow> string list \<Rightarrow> (world, unit) prog" where
  "subprocess_run E cmd w =
     (case env_subprocess E cmd w of
        None \<Rightarrow> (Inr (), w\<lparr>procs := procs w @ [cmd]\<rparr>)
      | Some e \<Rightarrow> (Inl e, w\<lparr>procs := procs w @ [cmd]\<rparr>))"

text \<open>\<open>try: m  except (CalledProcessError, FileNotFoundError): h\<close> and
  \<open>except CalledProcessError as e: h e\<close>: only the named classes are caught.\<close>

fun is_CalledProcessError :: "exn \<Rightarrow> bool" where
  "is_CalledProcessError (CalledProcessError rc err m) = True"
| "is_CalledProcessError e = False"

fun is_FileNotFoundError :: "exn \<Rightarrow> bool" where
  "is_FileNotFoundError (FileNotFoundError m) = True"
| "is_FileNotFoundError e = False"

fun stderr_of :: "exn \<Rightarrow> string" where
  "stderr_of (CalledProcessError rc err m) = err"
| "stderr_of e = []"

definition try_except_if ::
  "(exn \<Rightarrow> bool) \<Rightarrow> ('s, 'a) prog \<Rightarrow> (exn \<Rightarrow> ('s, 'a) prog) \<Rightarrow> ('s, 'a) prog" where
  "try_except_if P m h s =
     (case m s of
        (Inl e, s') \<Rightarrow> (if P e then h e s' else (Inl e, s'))
      | (Inr x, s') \<Rightarrow> (Inr x, s'))"

definition AudioProcessor_init :: "env \<Rightarrow> string option \<Rightarrow> (world, audio_processor) prog" where
  "AudioProcessor_init E temp_dir =
     (let dir = (case temp_dir of None \<Rightarrow> env_gettempdir E
                 | Some d \<Rightarrow> if d \<noteq> [] then d else env_gettempdir E)
      in bind (try_except_if (\<lambda>e. is_CalledProcessError e \<or> is_FileNotFoundError e)
                 (bind (subprocess_run E [''ffmpeg'', ''-version'']) (\<lambda>_. ret True))
                 (\<lambda>e. bind (log WARNING ''FFmpeg not found. Install it for audio conversion.'')
                    (\<lambda>_. ret False))) (\<lambda>available.
         ret \<lparr>ap_temp_dir = dir, ap_ffmpeg_available = available\<rparr>))"

text \<open>\<open>os.path.basename\<close> and \<open>os.path.join\<close> of two parts, for POSIX paths.\<close>

definition basename :: "string \<Rightarrow> string" where
  "basename p = rev (takeWhile (\<lambda>c. c \<noteq> CHR ''/'') (rev p))"

definition path_join :: "string \<Rightarrow> string \<Rightarrow> string" where
  "path_join a b =
     (if b \<noteq> [] \<and> hd b = CHR ''/'' then b
      else if a = [] \<or> last a = CHR ''/'' then a @ b
      else a @ ''/'' @ b)"

text \<open>A conversion that ends with exit status 0 has written its output file.\<close>

definition ffmpeg :: "env \<Rightarrow> string list \<Rightarrow> string \<Rightarrow> (world, unit) prog" where
  "ffmpeg E cmd output_path w =
     (case subprocess_run E cmd w of
        (Inl e, w') \<Rightarrow> (Inl e, w')
      | (Inr u, w') \<Rightarrow>
          (Inr (), w'\<lparr>files := (files w')(output_path \<mapsto> env_ffmpeg_output E cmd w)\<rparr>))"

definition convert_for_stt ::
  "env \<Rightarrow> audio_processor \<Rightarrow> string \<Rightarrow> string option \<Rightarrow> (world, string) prog" where
  "convert_for_stt E self input_path output_path =
     (if \<not> ap_ffmpeg_available self
      then bind (log ERROR ''FFmpeg not available for conversion'') (\<lambda>_.
           raise (RuntimeError ''FFmpeg required for audio conversion''))
      else
        let out = (case output_path of
                     None \<Rightarrow> path_join (ap_temp_dir self)
                               (''converted_'' @ basename input_path @ ''.wav'')
                   | Some p \<Rightarrow> p);
            cmd = [''ffmpeg'', ''-i'', input_path, ''-ar'', ''16000'', ''-ac'', ''1'',
                   ''-c:a'', ''pcm_s16le'', ''-y'', out]
        in try_except_if is_CalledProcessError
             (bind (ffmpeg E cmd out) (\<lambda>_.
              bind (log INFO (''Converted: '' @ input_path @ '' -> '' @ out)) (\<lambda>_.
              ret out)))
             (\<lambda>e. bind (log ERROR (''Conversion failed: '' @ stderr_of e)) (\<lambda>_.
                   raise (RuntimeError (''Audio conversion failed: '' @ exn_str e)))))"

definition convert_for_platform ::
  "env \<Rightarrow> audio_processor \<Rightarrow> string \<Rightarrow> string \<Rightarrow> string option \<Rightarrow> (world, string) prog" where
  "convert_for_platform E self input_path platform output_path =
     (if \<not> ap_ffmpeg_available self
      then ret input_path
      else
        let out = (case output_path of
                     None \<Rightarrow>
                       (let format = (if platform = ''telegram'' then ''ogg'' else ''mp3'');
                            ext = ''.'' @ format
                        in path_join (ap_temp_dir self)
                             (''response_'' @ basename input_path @ ext))
                   | Some p \<Rightarrow> p);
            cmd = (if platform = ''telegram''
                   then [''ffmpeg'', ''-i'', input_path, ''-c:a'', ''libopus'', ''-b:a'', ''64k'',
                         ''-y'', out]
                   else [''ffmpeg'', ''-i'', input_path, ''-codec:a'', ''libmp3lame'', ''-b:a'',
                         ''128k'', ''-y'', out])
        in try_except_if is_CalledProcessError
             (bind (ffmpeg E cmd out) (\<lambda>_.
              bind (log INFO (''Converted for '' @ platform @ '': '' @ input_path @ '' -> '' @ out))
                (\<lambda>_. ret out)))
             (\<lambda>e. bind (log ERROR (''Platform conversion failed: '' @ stderr_of e)) (\<lambda>_.
                   raise (RuntimeError (''Audio conversion failed: '' @ exn_str e)))))"

section \<open>voice_handler.py\<close>

text \<open>
  The handler takes any object with the methods it calls: an object is the record
  of its methods, each a statement on the world. The adapters of the package are
  such objects.
\<close>

record stt_provider =
  transcribe :: "string \<Rightarrow> (world, transcription) prog"

record tts_provider =
  synthesize :: "string \<Rightarrow> string \<Rightarrow> config \<Rightarrow> (world, unit) prog"
  get_voices :: "(world, json) prog"

definition tts_object :: "env \<Rightarrow> tts_instance \<Rightarrow> tts_provider" where
  "tts_object E x = \<lparr>synthesize = tts_synthesize E x, get_voices = tts_get_voices E x\<rparr>"

record voice_handler =
  vh_stt :: stt_provider
  vh_tts :: tts_provider
  vh_processor :: "audio_processor option"
  vh_defaults :: config

definition VoiceHandler_init ::
  "stt_provider \<Rightarrow> tts_provider \<Rightarrow> audio_processor option \<Rightarrow> config option \<Rightarrow> voice_handler"
  where
  "VoiceHandler_init stt_provider tts_provider audio_processor defaults =
     \<lparr>vh_stt = stt_provider, vh_tts = tts_provider, vh_processor = audio_processor,
      vh_defaults = (case defaults of None \<Rightarrow> Map.empty | Some d \<Rightarrow> d)\<rparr>"

definition VoiceHandler_synthesize ::
  "voice_handler \<Rightarrow> string \<Rightarrow> string \<Rightarrow> string option \<Rightarrow> string option \<Rightarrow> (world, unit) prog"
  where
  "VoiceHandler_synthesize self text output_file voice format =
     try_except
       (let kwargs = Map.empty;
            kwargs = (case voice of None \<Rightarrow> kwargs | Some v \<Rightarrow> kwargs(''voice'' \<mapsto> PStr v));
            kwargs = (case format of None \<Rightarrow> kwargs | Some f \<Rightarrow> kwargs(''format'' \<mapsto> PStr f))
        in bind (synthesize (vh_tts self) text output_file kwargs) (\<lambda>_.
           log INFO (''Synthesized: '' @ take 50 text @ ''... -> '' @ output_file)))
       (\<lambda>e. bind (log ERROR (''Synthesis failed: '' @ exn_str e)) (\<lambda>_. raise e))"

definition VoiceHandler_get_voices :: "voice_handler \<Rightarrow> (world, json) prog" where
  "VoiceHandler_get_voices self =
     try_except (get_voices (vh_tts self))
       (\<lambda>e. bind (log ERROR (''Failed to get voices: '' @ exn_str e)) (\<lambda>_. ret (JList [])))"

subsection \<open>test_connection\<close>

text \<open>\<open>tempfile.NamedTemporaryFile(suffix=..., delete=False)\<close> followed by
  \<open>close()\<close>: an empty file under a name the system chooses.\<close>

definition NamedTemporaryFile :: "env \<Rightarrow> string \<Rightarrow> (world, string) prog" where
  "NamedTemporaryFile E suffix w =
     (case env_fs_fault E (MkTemp suffix) w of
        Some e \<Rightarrow> (Inl e, w)
      | None \<Rightarrow> (let name = env_temp_name E suffix w
                 in (Inr name, w\<lparr>files := (files w)(name \<mapsto> Raw [])\<rparr>)))"

text \<open>The \<open>with wave.open(name, 'wb')\<close> block: parameters and frames, written as one
  wave file.\<close>

definition wave_write ::
  "env \<Rightarrow> string \<Rightarrow> nat \<Rightarrow> nat \<Rightarrow> nat \<Rightarrow> nat list \<Rightarrow> (world, unit) prog" where
  "wave_write E name nchannels sampwidth framerate frames =
     write_file E name (Wave nchannels sampwidth framerate frames)"

definition os_unlink :: "env \<Rightarrow> string \<Rightarrow> (world, unit) prog" where
  "os_unlink E name w =
     (case env_fs_fault E (Unlink name) w of
        Some e \<Rightarrow> (Inl e, w)
      | None \<Rightarrow>
          (if files w name = None
           then (Inl (FileNotFoundError (''[Errno 2] No such file or directory: '' @ quoted name)), w)
           else (Inr (), w\<lparr>files := (files w)(name := None)\<rparr>)))"

definition import_module :: "env \<Rightarrow> string \<Rightarrow> ('s, unit) prog" where
  "import_module E m = (case env_import E m of None \<Rightarrow> ret () | Some e \<Rightarrow> raise e)"

text \<open>The local variable \<open>results\<close> is part of the state while the method runs.\<close>

type_synonym results = "string \<rightharpoonup> bool"

definition set_result :: "string \<Rightarrow> bool \<Rightarrow> (results \<times> world, unit) prog" where
  "set_result k v s = (Inr (), ((fst s)(k \<mapsto> v), snd s))"

definition get_results :: "(results \<times> world, results) prog" where
  "get_results s = (Inr (fst s), s)"

definition with_results :: "results \<Rightarrow> (results \<times> world, 'a) prog \<Rightarrow> (world, 'a) prog" where
  "with_results r m w = (case m (r, w) of (x, s') \<Rightarrow> (x, snd s'))"

definition VoiceHandler_test_connection :: "env \<Rightarrow> voice_handler \<Rightarrow> (world, results) prog" where
  "VoiceHandler_test_connection E self =
     with_results [''stt'' \<mapsto> False, ''tts'' \<mapsto> False]
       (bind (try_except
                (bind (lift (NamedTemporaryFile E ''.wav'')) (\<lambda>test_audio.
                 bind (import_module E ''wave'') (\<lambda>_.
                 bind (lift (wave_write E test_audio 1 2 16000
                               (concat (replicate 16000 [0, 0])))) (\<lambda>_.
                 bind (lift (transcribe (vh_stt self) test_audio)) (\<lambda>_.
                 bind (set_result ''stt'' True) (\<lambda>_.
                 lift (os_unlink E test_audio)))))))
                (\<lambda>e. lift (log ERROR (''STT test failed: '' @ exn_str e)))) (\<lambda>_.
        bind (try_except
                (bind (lift (NamedTemporaryFile E ''.ogg'')) (\<lambda>test_output.
                 bind (lift (synthesize (vh_tts self) ''Test'' test_output Map.empty)) (\<lambda>_.
                 bind (set_result ''tts'' True) (\<lambda>_.
                 lift (os_unlink E test_output)))))
                (\<lambda>e. lift (log ERROR (''TTS test failed: '' @ exn_str e)))) (\<lambda>_.
        get_results)))"

subsection \<open>The two probes of test_connection\<close>

text \<open>The bodies of the two \<open>try\<close> statements of \<open>test_connection\<close>, under names
  of their own: \<open>test_connection_blocks\<close> below shows that the method is built
  from exactly these.\<close>

definition stt_block :: "env \<Rightarrow> voice_handler \<Rightarrow> (results \<times> world, unit) prog" where
  "stt_block E self =
     bind (lift (NamedTemporaryFile E ''.wav'')) (\<lambda>test_audio.
     bind (import_module E ''wave'') (\<lambda>_.
     bind (lift (wave_write E test_audio 1 2 16000 (concat (replicate 16000 [0, 0])))) (\<lambda>_.
     bind (lift (transcribe (vh_stt self) test_audio)) (\<lambda>_.
     bind (set_result ''stt'' True) (\<lambda>_.
     lift (os_unlink E test_audio))))))"

definition tts_block :: "env \<Rightarrow> voice_handler \<Rightarrow> (results \<times> world, unit) prog" where
  "tts_block E self =
     bind (lift (NamedTemporaryFile E ''.ogg'')) (\<lambda>test_output.
     bind (lift (synthesize (vh_tts self) ''Test'' test_output Map.empty)) (\<lambda>_.
     bind (set_result ''tts'' True) (\<lambda>_.
     lift (os_unlink E test_output))))"

section \<open>Concrete environments and objects\<close>

text \<open>Answers of a backend: four bytes of audio with status 200, and the same with
  status 300 and with status 500.\<close>

definition response_200 :: response where
  "response_200 =
     \<lparr>resp_status = 200, resp_reason = ''OK'', resp_url = [],
      resp_content = [79, 103, 103, 83], resp_json = Inr (JObj [])\<rparr>"

definition response_300 :: response where
  "response_300 = response_200\<lparr>resp_status := 300, resp_reason := ''Multiple Choices''\<rparr>"

definition response_500 :: response where
  "response_500 = response_200\<lparr>resp_status := 500, resp_reason := ''Internal Server Error''\<rparr>"

text \<open>An environment in which every module imports, the backend answers every call
  with status 200, and no file operation fails; and the world before anything ran.\<close>

definition env0 :: env where
  "env0 = \<lparr>env_import = (\<lambda>m. None),
          env_load_model = (\<lambda>m d. Inr 0),
          env_WhisperModel = (\<lambda>m d c k. Inr 0),
          env_OpenAI = (\<lambda>k. Inr 0),
          env_SpeechClient = Inr 0,
          env_backend = (\<lambda>c w. Inr response_200),
          env_fs_fault = (\<lambda>op w. None),
          env_temp_name = (\<lambda>suffix w. ''/tmp/tmp0'' @ suffix),
          env_gettempdir = ''/tmp'',
          env_subprocess = (\<lambda>cmd w. None),
          env_ffmpeg_output = (\<lambda>cmd w. Raw [])\<rparr>"

definition world0 :: world where
  "world0 = \<lparr>files = Map.empty, environ = Map.empty, logs = [], calls = [], procs = []\<rparr>"

text \<open>The same environment on a machine without the conversion tool, without the
  \<open>faster_whisper\<close> module, with a backend that refuses the connection, with a
  backend that answers every call with status 500, and with one that answers with
  status 300.\<close>

definition env_no_ffmpeg :: env where
  "env_no_ffmpeg = env0\<lparr>env_subprocess := (\<lambda>cmd w. Some (FileNotFoundError ''ffmpeg''))\<rparr>"

definition env_no_faster_whisper :: env where
  "env_no_faster_whisper =
     env0\<lparr>env_import := (\<lambda>m. if m = ''faster_whisper''
        then Some (ImportError ''No module named 'faster_whisper' '') else None)\<rparr>"

definition env_unreachable :: env where
  "env_unreachable =
     env0\<lparr>env_backend := (\<lambda>c w. Inl (LibraryError ''ConnectionError'' ''Connection refused''))\<rparr>"

definition env_status_500 :: env where
  "env_status_500 = env0\<lparr>env_backend := (\<lambda>c w. Inr response_500)\<rparr>"

definition env_status_300 :: env where
  "env_status_300 = env0\<lparr>env_backend := (\<lambda>c w. Inr response_300)\<rparr>"


definition kokoro0 :: kokoro_tts where
  "kokoro0 = \<lparr>kk_base_url = PStr ''http://localhost:8880/v1'', kk_voice = PStr ''af_bella'',
             kk_format = PStr ''ogg''\<rparr>"

definition eleven0 :: elevenlabs_tts where
  "eleven0 = \<lparr>el_api_key = PStr ''key'', el_voice_id = PStr ''default'',
             el_model = PStr ''eleven_multilingual_v2'', el_format = PStr ''mp3''\<rparr>"

definition openai0 :: openai_tts where
  "openai0 = \<lparr>oa_client = 0, oa_model = PStr ''tts-1'', oa_voice = PStr ''alloy'',
             oa_format = PStr ''mp3''\<rparr>"

definition qwen0 :: qwen3_tts where
  "qwen0 = \<lparr>q3_model_path = PNone, q3_device = PStr ''cpu'', q3_voice = PStr ''default'',
           q3_format = PStr ''wav''\<rparr>"

text \<open>A handler whose transcriber always raises and whose synthesizer is the Kokoro
  adapter in front of the unreachable backend.\<close>

definition stt_down :: stt_provider where
  "stt_down =
     \<lparr>transcribe = (\<lambda>p. raise (LibraryError ''ConnectionError'' ''Connection refused''))\<rparr>"

definition handler_down :: voice_handler where
  "handler_down =
     VoiceHandler_init stt_down (tts_object env_unreachable (KokoroTTS_obj kokoro0)) None None"

section \<open>Properties of the registry\<close>

lemma loaded_stt:
  "stt_providers loaded_factory =
     [''whisper'' \<mapsto> WhisperSTT, ''faster-whisper'' \<mapsto> FasterWhisperSTT,
      ''openai'' \<mapsto> OpenAIWhisperSTT, ''google'' \<mapsto> GoogleCloudSTT]"
  by (simp add: loaded_factory_def register_stt_def register_tts_def ProviderFactory_def)

lemma loaded_tts:
  "tts_providers loaded_factory =
     [''kokoro'' \<mapsto> KokoroTTS, ''qwen3'' \<mapsto> Qwen3TTS,
      ''openai'' \<mapsto> OpenAITTS, ''elevenlabs'' \<mapsto> ElevenLabsTTS]"
  by (simp add: loaded_factory_def register_stt_def register_tts_def ProviderFactory_def)

lemma stt_init_class:
  "stt_init E c config w = (Inr x, w') \<Longrightarrow> stt_class_of x = c"
  by (cases c) (auto simp: bind_def ret_def split: prod.splits sum.splits)

lemma tts_init_class:
  "tts_init E c config w = (Inr x, w') \<Longrightarrow> tts_class_of x = c"
  by (cases c) (auto simp: bind_def ret_def split: prod.splits sum.splits)

lemma stt_contract: "set STTProvider_abstract \<subseteq> set (stt_class_methods c)"
  by (cases c) (simp_all add: STTProvider_abstract_def)

lemma tts_contract: "set TTSProvider_abstract \<subseteq> set (tts_class_methods c)"
  by (cases c) (simp_all add: TTSProvider_abstract_def)

lemma call_stt_outcome:
  "call_stt E c config w =
     (if config ''self'' \<noteq> None
      then (Inl (TypeError (stt_class_name c @ ''.__init__() got multiple values for argument '' @
              quoted ''self'')), w)
      else stt_init E c config w)"
  by (simp add: call_stt_def stt_contract raise_def)

lemma call_tts_outcome:
  "call_tts E c config w =
     (if config ''self'' \<noteq> None
      then (Inl (TypeError (tts_class_name c @ ''.__init__() got multiple values for argument '' @
              quoted ''self'')), w)
      else tts_init E c config w)"
  by (simp add: call_tts_def tts_contract raise_def)

lemma qwen3_never_constructed:
  "\<exists>e. tts_init E Qwen3TTS config w = (Inl e, w)"
  by (simp add: Qwen3TTS_init_def bind_def raise_def Let_def)

text \<open>
  C1. For every name registered once the package is loaded, in either category, and
  every configuration, \<open>create\<close> is the call of the registered class and nothing
  else: it has a value only when \<open>__init__\<close> ran to its end, and that value is an
  instance of the registered class, which defines every abstract method of its
  contract; when \<open>__init__\<close> raises, \<open>create\<close> raises there and then, with the
  exception of \<open>__init__\<close> (or, for a configuration with an entry \<open>self\<close>, with
  the \<open>TypeError\<close> of the call itself). Nothing is caught, wrapped or put off to a
  later use. The placeholder class, which assigns its attributes and then raises, never
  yields an object. The spec's ProviderInitError is the exception the constructor
  raises; the code has no class of that name.
\<close>

theorem create_all_or_nothing:
  "(stt_providers loaded_factory N = Some c \<longrightarrow>
      create_stt (call_stt E) loaded_factory N config w = call_stt E c config w \<and>
      set STTProvider_abstract \<subseteq> set (stt_class_methods c) \<and>
      (\<forall>x w'. create_stt (call_stt E) loaded_factory N config w = (Inr x, w') \<longrightarrow>
         stt_class_of x = c \<and> stt_init E c config w = (Inr x, w')) \<and>
      (\<forall>e w'. stt_init E c config w = (Inl e, w') \<longrightarrow>
         (\<exists>e'. fst (create_stt (call_stt E) loaded_factory N config w) = Inl e') \<and>
         (config ''self'' = None \<longrightarrow>
            create_stt (call_stt E) loaded_factory N config w = (Inl e, w')))) \<and>
   (tts_providers loaded_factory M = Some d \<longrightarrow>
      create_tts (call_tts E) loaded_factory M config w = call_tts E d config w \<and>
      set TTSProvider_abstract \<subseteq> set (tts_class_methods d) \<and>
      (\<forall>x w'. create_tts (call_tts E) loaded_factory M config w = (Inr x, w') \<longrightarrow>
         tts_class_of x = d \<and> tts_init E d config w = (Inr x, w')) \<and>
      (\<forall>e w'. tts_init E d config w = (Inl e, w') \<longrightarrow>
         (\<exists>e'. fst (create_tts (call_tts E) loaded_factory M config w) = Inl e') \<and>
         (config ''self'' = None \<longrightarrow>
            create_tts (call_tts E) loaded_factory M config w = (Inl e, w'))) \<and>
      (d = Qwen3TTS \<longrightarrow>
         (\<exists>e. create_tts (call_tts E) loaded_factory M config w = (Inl e, w))))"
proof (intro conjI impI)
  assume n: "stt_providers loaded_factory N = Some c"
  then have cr: "create_stt (call_stt E) loaded_factory N config w = call_stt E c config w"
    by (simp add: create_stt_def)
  show "create_stt (call_stt E) loaded_factory N config w = call_stt E c config w"
    by (rule cr)
  show "set STTProvider_abstract \<subseteq> set (stt_class_methods c)"
    by (rule stt_contract)
  show "\<forall>x w'. create_stt (call_stt E) loaded_factory N config w = (Inr x, w') \<longrightarrow>
         stt_class_of x = c \<and> stt_init E c config w = (Inr x, w')"
    unfolding cr call_stt_outcome by (auto split: if_splits dest: stt_init_class)
  show "\<forall>e w'. stt_init E c config w = (Inl e, w') \<longrightarrow>
         (\<exists>e'. fst (create_stt (call_stt E) loaded_factory N config w) = Inl e') \<and>
         (config ''self'' = None \<longrightarrow>
            create_stt (call_stt E) loaded_factory N config w = (Inl e, w'))"
    unfolding cr call_stt_outcome by auto
next
  assume m: "tts_providers loaded_factory M = Some d"
  then have cr: "create_tts (call_tts E) loaded_factory M config w = call_tts E d config w"
    by (simp add: create_tts_def)
  show "create_tts (call_tts E) loaded_factory M config w = call_tts E d config w"
    by (rule cr)
  show "set TTSProvider_abstract \<subseteq> set (tts_class_methods d)"
    by (rule tts_contract)
  show "\<forall>x w'. create_tts (call_tts E) loaded_factory M config w = (Inr x, w') \<longrightarrow>
         tts_class_of x = d \<and> tts_init E d config w = (Inr x, w')"
    unfolding cr call_tts_outcome by (auto split: if_splits dest: tts_init_class)
  show "\<forall>e w'. tts_init E d config w = (Inl e, w') \<longrightarrow>
         (\<exists>e'. fst (create_tts (call_tts E) loaded_factory M config w) = Inl e') \<and>
         (config ''self'' = None \<longrightarrow>
            create_tts (call_tts E) loaded_factory M config w = (Inl e, w'))"
    unfolding cr call_tts_outcome by auto
next
  assume m: "tts_providers loaded_factory M = Some d" and q: "d = Qwen3TTS"
  from m have cr: "create_tts (call_tts E) loaded_factory M config w = call_tts E d config w"
    by (simp add: create_tts_def)
  from qwen3_never_constructed [of E config w] q
  show "\<exists>e. create_tts (call_tts E) loaded_factory M config w = (Inl e, w)"
    unfolding cr call_tts_outcome by auto
qed

theorem create_all_or_nothing_witness:
  "stt_providers loaded_factory ''faster-whisper'' = Some FasterWhisperSTT \<and>
   tts_providers loaded_factory ''kokoro'' = Some KokoroTTS \<and>
   tts_providers loaded_factory ''qwen3'' = Some Qwen3TTS \<and>
   create_tts (call_tts env0) loaded_factory ''kokoro'' Map.empty world0 =
     (Inr (KokoroTTS_obj kokoro0), world0) \<and>
   create_stt (call_stt env_no_faster_whisper) loaded_factory ''faster-whisper'' Map.empty world0 =
     (Inl (ImportError ''faster-whisper not installed. Run: pip install faster-whisper''), world0) \<and>
   (\<exists>e. create_tts (call_tts env0) loaded_factory ''qwen3'' Map.empty world0 = (Inl e, world0))"
proof -
  let ?e = "ImportError ''faster-whisper not installed. Run: pip install faster-whisper''"
  have h1: "stt_providers loaded_factory ''faster-whisper'' = Some FasterWhisperSTT"
    by (simp add: loaded_stt)
  have h2: "tts_providers loaded_factory ''kokoro'' = Some KokoroTTS"
    by (simp add: loaded_tts)
  have h3: "tts_providers loaded_factory ''qwen3'' = Some Qwen3TTS"
    by (simp add: loaded_tts)
  have h4: "stt_init env_no_faster_whisper FasterWhisperSTT Map.empty world0 = (Inl ?e, world0)"
    by (simp add: FasterWhisperSTT_init_def import_or_def arg_def bind_def raise_def
        env_no_faster_whisper_def)
  from h2 create_all_or_nothing [of "''faster-whisper''" FasterWhisperSTT env0 Map.empty world0
      "''kokoro''" KokoroTTS]
  have a: "create_tts (call_tts env0) loaded_factory ''kokoro'' Map.empty world0 =
      call_tts env0 KokoroTTS Map.empty world0"
    by blast
  from h1 h4 create_all_or_nothing [of "''faster-whisper''" FasterWhisperSTT
      env_no_faster_whisper Map.empty world0 "''kokoro''" KokoroTTS]
  have b: "create_stt (call_stt env_no_faster_whisper) loaded_factory ''faster-whisper'' Map.empty
      world0 = (Inl ?e, world0)"
    by blast
  from h3 create_all_or_nothing [of "''faster-whisper''" FasterWhisperSTT env0 Map.empty world0
      "''qwen3''" Qwen3TTS]
  have q: "\<exists>e. create_tts (call_tts env0) loaded_factory ''qwen3'' Map.empty world0 =
      (Inl e, world0)"
    by blast
  have c: "call_tts env0 KokoroTTS Map.empty world0 = (Inr (KokoroTTS_obj kokoro0), world0)"
    by (simp add: call_tts_outcome KokoroTTS_init_def import_or_def arg_def bind_def ret_def
        env0_def kokoro0_def)
  from h1 h2 h3 a b c q show ?thesis
    by simp
qed

text \<open>
  C2. For either category, any registry contents, any name that is not a key of the
  category's table and any configuration, \<open>create\<close> raises at once, before any
  class is called and with the world untouched. The exception is the
  \<open>ValueError\<close> by which the code signals an unknown provider, and its message
  ends with the offered name.
\<close>

theorem create_unknown_provider:
  "(stt_providers cls N = None \<longrightarrow>
      (\<exists>e. create_stt call1 cls N config w = (Inl e, w) \<and>
           e = ValueError (''Unknown STT provider: '' @ N) \<and>
           exn_str e = ''Unknown STT provider: '' @ N)) \<and>
   (tts_providers cls N = None \<longrightarrow>
      (\<exists>e. create_tts call2 cls N config w = (Inl e, w) \<and>
           e = ValueError (''Unknown TTS provider: '' @ N) \<and>
           exn_str e = ''Unknown TTS provider: '' @ N))"
  by (simp add: create_stt_def create_tts_def raise_def)

theorem create_unknown_provider_witness:
  "stt_providers loaded_factory ''does-not-exist'' = None \<and>
   tts_providers loaded_factory ''does-not-exist'' = None \<and>
   create_stt (call_stt env0) loaded_factory ''does-not-exist'' Map.empty world0 =
     (Inl (ValueError ''Unknown STT provider: does-not-exist''), world0) \<and>
   create_tts (call_tts env0) loaded_factory ''does-not-exist'' Map.empty world0 =
     (Inl (ValueError ''Unknown TTS provider: does-not-exist''), world0)"
  using create_unknown_provider
    [of loaded_factory "''does-not-exist''" "call_stt env0" Map.empty world0 "call_tts env0"]
  by (simp add: loaded_stt loaded_tts)

text \<open>
  C9. Registration stores the class under the name in the table of its category and
  nowhere else. Registering a name again replaces the entry (the last registration
  wins, and registering the same class twice is the same as once). The two tables
  are independent: a registration in one category leaves the other table, and so
  every \<open>create\<close> of the other category, as it was, and one name registered in both
  categories gives each \<open>create\<close> the class of its own category.
\<close>

theorem register_overwrite_independent:
  "stt_providers (register_stt n c cls) = (stt_providers cls)(n \<mapsto> c) \<and>
   tts_providers (register_tts n d cls) = (tts_providers cls)(n \<mapsto> d) \<and>
   register_stt n c2 (register_stt n c1 cls) = register_stt n c2 cls \<and>
   register_tts n d2 (register_tts n d1 cls) = register_tts n d2 cls \<and>
   register_stt n c (register_stt n c cls) = register_stt n c cls \<and>
   register_tts n d (register_tts n d cls) = register_tts n d cls \<and>
   tts_providers (register_stt n c cls) = tts_providers cls \<and>
   stt_providers (register_tts n d cls) = stt_providers cls \<and>
   create_tts call2 (register_stt n c cls) m config = create_tts call2 cls m config \<and>
   create_stt call1 (register_tts n d cls) m config = create_stt call1 cls m config \<and>
   create_stt call1 (register_tts n d (register_stt n c cls)) n config = call1 c config \<and>
   create_tts call2 (register_tts n d (register_stt n c cls)) n config = call2 d config \<and>
   create_stt call1 (register_stt n c2 (register_stt n c1 cls)) n config = call1 c2 config \<and>
   create_tts call2 (register_tts n d2 (register_tts n d1 cls)) n config = call2 d2 config"
  by (simp add: register_stt_def register_tts_def create_stt_def create_tts_def)

section \<open>Properties of the adapters\<close>

lemma status_error_HTTPError:
  "status_error r = Some e \<Longrightarrow> \<exists>m. e = LibraryError ''HTTPError'' m"
  by (auto simp: status_error_def split: if_splits)

lemma status_error_passes:
  "status_error r = None \<longleftrightarrow> \<not> (400 \<le> resp_status r \<and> resp_status r < 600)"
  by (auto simp: status_error_def)

lemma kokoro_synthesize_outcome:
  "KokoroTTS_synthesize E self text output_file kwargs w =
     (let c = HttpPost (py_str (kk_base_url self) @ ''/audio/speech'') []
                [(''model'', PStr ''kokoro''), (''input'', PStr text),
                 (''voice'', arg kwargs ''voice'' (kk_voice self)),
                 (''response_format'', arg kwargs ''format'' (kk_format self))];
          w1 = w\<lparr>calls := calls w @ [c]\<rparr>
      in case env_backend E c w of
           Inl e \<Rightarrow> (Inl e, w1)
         | Inr r \<Rightarrow>
            (case status_error r of
               Some e \<Rightarrow> (Inl e, w1)
             | None \<Rightarrow>
                (case env_fs_fault E (OpenWrite output_file) w1 of
                   Some e \<Rightarrow> (Inl e, w1)
                 | None \<Rightarrow> (Inr (), w1\<lparr>files := (files w1)(output_file \<mapsto> Raw (resp_content r))\<rparr>))))"
  by (simp add: KokoroTTS_synthesize_def Let_def bind_def send_def raise_for_status_def
      write_file_def ret_def raise_def split: sum.splits option.splits)

lemma elevenlabs_synthesize_outcome:
  "ElevenLabsTTS_synthesize E self text output_file kwargs w =
     (let c = HttpPost (''https://api.elevenlabs.io/v1/text-to-speech/'' @
                          py_str (arg kwargs ''voice_id'' (el_voice_id self)))
                [(''xi-api-key'', el_api_key self), (''Content-Type'', PStr ''application/json'')]
                [(''text'', PStr text), (''model_id'', el_model self),
                 (''output_format'', el_format self)];
          w1 = w\<lparr>calls := calls w @ [c]\<rparr>
      in case env_backend E c w of
           Inl e \<Rightarrow> (Inl e, w1)
         | Inr r \<Rightarrow>
            (case status_error r of
               Some e \<Rightarrow> (Inl e, w1)
             | None \<Rightarrow>
                (case env_fs_fault E (OpenWrite output_file) w1 of
                   Some e \<Rightarrow> (Inl e, w1)
                 | None \<Rightarrow> (Inr (), w1\<lparr>files := (files w1)(output_file \<mapsto> Raw (resp_content r))\<rparr>))))"
  by (simp add: ElevenLabsTTS_synthesize_def Let_def bind_def send_def raise_for_status_def
      write_file_def ret_def raise_def split: sum.splits option.splits)

lemma openai_synthesize_outcome:
  "OpenAITTS_synthesize E self text output_file kwargs w =
     (let c = SpeechCreate (oa_client self)
                [(''model'', arg kwargs ''model'' (oa_model self)),
                 (''voice'', arg kwargs ''voice'' (oa_voice self)), (''input'', PStr text),
                 (''response_format'', arg kwargs ''format'' (oa_format self))];
          w1 = w\<lparr>calls := calls w @ [c]\<rparr>
      in case env_backend E c w of
           Inl e \<Rightarrow> (Inl e, w1)
         | Inr r \<Rightarrow>
            (case env_fs_fault E (OpenWrite output_file) w1 of
               Some e \<Rightarrow> (Inl e, w1)
             | None \<Rightarrow> (Inr (), w1\<lparr>files := (files w1)(output_file \<mapsto> Raw (resp_content r))\<rparr>)))"
  by (simp add: OpenAITTS_synthesize_def Let_def bind_def send_def
      write_file_def ret_def raise_def split: sum.splits option.splits)

text \<open>
  C4, as stated, fails. No adapter looks at the text before sending it: with a backend
  that answers the request for the empty text with audio, \<open>synthesize\<close> of the
  Kokoro adapter returns normally and the output file, absent before, holds the
  backend's bytes.
\<close>

theorem synthesize_empty_text_counterexample:
  "fst (tts_synthesize env0 (KokoroTTS_obj kokoro0) [] ''out.ogg'' Map.empty world0) = Inr () \<and>
   files world0 ''out.ogg'' = None \<and>
   files (snd (tts_synthesize env0 (KokoroTTS_obj kokoro0) [] ''out.ogg'' Map.empty world0))
     ''out.ogg'' = Some (Raw [79, 103, 103, 83])"
  by (simp add: kokoro_synthesize_outcome Let_def env0_def world0_def response_200_def
      status_error_def)

text \<open>
  C4, amended. For every synthesizer adapter and output path, \<open>synthesize\<close> with
  empty text is not rejected by the adapter. The placeholder adapter raises
  \<open>NotImplementedError\<close> as for any text, leaving the world alone. Each other
  adapter sends one request carrying the empty text; when the backend call raises,
  \<open>synthesize\<close> raises that exception and no file is created or written; when the
  backend answers, the answer passes the status check and the output file can be
  opened, \<open>synthesize\<close> returns normally and the output file holds the answer's
  bytes.
\<close>

theorem synthesize_empty_text_forwarded:
  "(tts_class_of x = Qwen3TTS \<longrightarrow>
      tts_synthesize E x [] output_file kwargs w =
        (Inl (NotImplementedError ''Qwen3 TTS implementation pending model release''), w)) \<and>
   (tts_class_of x \<noteq> Qwen3TTS \<longrightarrow>
      (\<exists>c. calls (snd (tts_synthesize E x [] output_file kwargs w)) = calls w @ [c] \<and>
         PStr [] \<in> snd ` set (call_payload c) \<and>
         (\<forall>e. env_backend E c w = Inl e \<longrightarrow>
            fst (tts_synthesize E x [] output_file kwargs w) = Inl e \<and>
            files (snd (tts_synthesize E x [] output_file kwargs w)) = files w) \<and>
         (\<forall>r. env_backend E c w = Inr r \<and> status_error r = None \<and>
              env_fs_fault E (OpenWrite output_file) (w\<lparr>calls := calls w @ [c]\<rparr>) = None \<longrightarrow>
            fst (tts_synthesize E x [] output_file kwargs w) = Inr () \<and>
            files (snd (tts_synthesize E x [] output_file kwargs w)) =
              (files w)(output_file \<mapsto> Raw (resp_content r)))))"
  by (cases x)
    (auto simp: kokoro_synthesize_outcome elevenlabs_synthesize_outcome openai_synthesize_outcome
      Qwen3TTS_synthesize_def raise_def Let_def split: sum.splits option.splits)

theorem synthesize_empty_text_forwarded_witness:
  "tts_class_of (OpenAITTS_obj openai0) \<noteq> Qwen3TTS \<and>
   tts_class_of (Qwen3TTS_obj qwen0) = Qwen3TTS \<and>
   fst (tts_synthesize env0 (OpenAITTS_obj openai0) [] ''out.mp3'' Map.empty world0) = Inr () \<and>
   files (snd (tts_synthesize env0 (OpenAITTS_obj openai0) [] ''out.mp3'' Map.empty world0)) =
     (files world0)(''out.mp3'' \<mapsto> Raw [79, 103, 103, 83]) \<and>
   fst (tts_synthesize env_unreachable (OpenAITTS_obj openai0) [] ''out.mp3'' Map.empty world0) =
     Inl (LibraryError ''ConnectionError'' ''Connection refused'') \<and>
   files (snd (tts_synthesize env_unreachable (OpenAITTS_obj openai0) [] ''out.mp3'' Map.empty
     world0)) = files world0 \<and>
   fst (tts_synthesize env0 (Qwen3TTS_obj qwen0) [] ''out.wav'' Map.empty world0) =
     Inl (NotImplementedError ''Qwen3 TTS implementation pending model release'')"
proof -
  have c1: "tts_class_of (OpenAITTS_obj openai0) \<noteq> Qwen3TTS"
    by simp
  have c2: "tts_class_of (Qwen3TTS_obj qwen0) = Qwen3TTS"
    by simp
  have b: "\<And>c. env_backend env0 c world0 = Inr response_200"
    by (simp add: env0_def)
  have s: "status_error response_200 = None"
    by (simp add: status_error_def response_200_def)
  have rc: "resp_content response_200 = [79, 103, 103, 83]"
    by (simp add: response_200_def)
  have f: "\<And>c. env_fs_fault env0 (OpenWrite ''out.mp3'') (world0\<lparr>calls := calls world0 @ [c]\<rparr>) = None"
    by (simp add: env0_def)
  have u: "\<And>c. env_backend env_unreachable c world0 =
      Inl (LibraryError ''ConnectionError'' ''Connection refused'')"
    by (simp add: env_unreachable_def)
  from c1 b s f rc synthesize_empty_text_forwarded [of "OpenAITTS_obj openai0" env0 "''out.mp3''"
      Map.empty world0]
  have ok: "fst (tts_synthesize env0 (OpenAITTS_obj openai0) [] ''out.mp3'' Map.empty world0) = Inr () \<and>
      files (snd (tts_synthesize env0 (OpenAITTS_obj openai0) [] ''out.mp3'' Map.empty world0)) =
        (files world0)(''out.mp3'' \<mapsto> Raw [79, 103, 103, 83])"
    by auto
  from c1 u synthesize_empty_text_forwarded [of "OpenAITTS_obj openai0" env_unreachable
      "''out.mp3''" Map.empty world0]
  have bad: "fst (tts_synthesize env_unreachable (OpenAITTS_obj openai0) [] ''out.mp3'' Map.empty
        world0) = Inl (LibraryError ''ConnectionError'' ''Connection refused'') \<and>
      files (snd (tts_synthesize env_unreachable (OpenAITTS_obj openai0) [] ''out.mp3'' Map.empty
        world0)) = files world0"
    by auto
  from c2 synthesize_empty_text_forwarded [of "Qwen3TTS_obj qwen0" env0 "''out.wav''"
      Map.empty world0]
  have q: "fst (tts_synthesize env0 (Qwen3TTS_obj qwen0) [] ''out.wav'' Map.empty world0) =
     Inl (NotImplementedError ''Qwen3 TTS implementation pending model release'')"
    by simp
  from c1 c2 ok bad q show ?thesis
    by blast
qed

text \<open>
  C10, as stated, fails. The two adapters leave the judgement of the status to
  \<open>raise_for_status\<close>, which rejects the statuses from 400 to 599 only: a backend
  that answers the request with status 300 is not a failure to the adapter, and
  \<open>synthesize\<close> of the Kokoro adapter returns normally with the output file, absent
  before, holding the answer's bytes.
\<close>

theorem http_redirect_status_counterexample:
  "env_backend env_status_300
     (HttpPost ''http://localhost:8880/v1/audio/speech'' []
        [(''model'', PStr ''kokoro''), (''input'', PStr ''Hello''), (''voice'', PStr ''af_bella''),
         (''response_format'', PStr ''ogg'')]) world0 = Inr response_300 \<and>
   resp_status response_300 = 300 \<and>
   fst (tts_synthesize env_status_300 (KokoroTTS_obj kokoro0) ''Hello'' ''out.ogg'' Map.empty
     world0) = Inr () \<and>
   files world0 ''out.ogg'' = None \<and>
   files (snd (tts_synthesize env_status_300 (KokoroTTS_obj kokoro0) ''Hello'' ''out.ogg''
     Map.empty world0)) ''out.ogg'' = Some (Raw [79, 103, 103, 83])"
  by (simp add: kokoro_synthesize_outcome Let_def env_status_300_def env0_def world0_def
      response_300_def response_200_def status_error_def kokoro0_def)

text \<open>
  C10, amended. For the Kokoro and the ElevenLabs adapter, any text, output path and
  overrides: \<open>synthesize\<close> sends exactly one request, and when the backend answers
  it with a status from 400 to 599 (the statuses \<open>raise_for_status\<close> rejects), or
  when the request itself raises, \<open>synthesize\<close> raises (\<open>HTTPError\<close> for the
  status, the request's own exception otherwise) before any write: the files are exactly
  what they were, the output file neither created nor modified.
\<close>

theorem http_failure_writes_nothing:
  "(x = KokoroTTS_obj k \<or> x = ElevenLabsTTS_obj l) \<longrightarrow>
   (\<exists>c. calls (snd (tts_synthesize E x text output_file kwargs w)) = calls w @ [c] \<and>
      (\<forall>r. env_backend E c w = Inr r \<and> 400 \<le> resp_status r \<and> resp_status r < 600 \<longrightarrow>
         (\<exists>m. fst (tts_synthesize E x text output_file kwargs w) =
               Inl (LibraryError ''HTTPError'' m)) \<and>
         files (snd (tts_synthesize E x text output_file kwargs w)) = files w) \<and>
      (\<forall>e. env_backend E c w = Inl e \<longrightarrow>
         fst (tts_synthesize E x text output_file kwargs w) = Inl e \<and>
         files (snd (tts_synthesize E x text output_file kwargs w)) = files w))"
proof (intro impI)
  assume "x = KokoroTTS_obj k \<or> x = ElevenLabsTTS_obj l"
  then show "\<exists>c. calls (snd (tts_synthesize E x text output_file kwargs w)) = calls w @ [c] \<and>
      (\<forall>r. env_backend E c w = Inr r \<and> 400 \<le> resp_status r \<and> resp_status r < 600 \<longrightarrow>
         (\<exists>m. fst (tts_synthesize E x text output_file kwargs w) =
               Inl (LibraryError ''HTTPError'' m)) \<and>
         files (snd (tts_synthesize E x text output_file kwargs w)) = files w) \<and>
      (\<forall>e. env_backend E c w = Inl e \<longrightarrow>
         fst (tts_synthesize E x text output_file kwargs w) = Inl e \<and>
         files (snd (tts_synthesize E x text output_file kwargs w)) = files w)"
  proof
    assume x: "x = KokoroTTS_obj k"
    show ?thesis
      unfolding x
      by (auto simp: kokoro_synthesize_outcome Let_def status_error_passes
          split: sum.splits option.splits dest: status_error_HTTPError)
  next
    assume x: "x = ElevenLabsTTS_obj l"
    show ?thesis
      unfolding x
      by (auto simp: elevenlabs_synthesize_outcome Let_def status_error_passes
          split: sum.splits option.splits dest: status_error_HTTPError)
  qed
qed

theorem http_failure_writes_nothing_witness:
  "resp_status response_500 = 500 \<and>
   fst (tts_synthesize env_status_500 (KokoroTTS_obj kokoro0) ''Hello'' ''out.ogg'' Map.empty
     world0) = Inl (LibraryError ''HTTPError'' ''500 Server Error: Internal Server Error for url: '') \<and>
   files (snd (tts_synthesize env_status_500 (KokoroTTS_obj kokoro0) ''Hello'' ''out.ogg''
     Map.empty world0)) = files world0 \<and>
   fst (tts_synthesize env_unreachable (ElevenLabsTTS_obj eleven0) ''Hello'' ''out.mp3''
     Map.empty world0) = Inl (LibraryError ''ConnectionError'' ''Connection refused'')"
proof -
  have b: "\<And>c. env_backend env_status_500 c world0 = Inr response_500"
    by (simp add: env_status_500_def)
  have st: "resp_status response_500 = 500"
    by (simp add: response_500_def)
  have u: "\<And>c. env_backend env_unreachable c world0 =
      Inl (LibraryError ''ConnectionError'' ''Connection refused'')"
    by (simp add: env_unreachable_def)
  have m: "status_error response_500 =
      Some (LibraryError ''HTTPError'' ''500 Server Error: Internal Server Error for url: '')"
    by (simp add: status_error_def response_500_def response_200_def string_of_nat.simps)
  have v: "fst (tts_synthesize env_status_500 (KokoroTTS_obj kokoro0) ''Hello'' ''out.ogg''
     Map.empty world0) = Inl (LibraryError ''HTTPError''
       ''500 Server Error: Internal Server Error for url: '')"
    by (simp add: kokoro_synthesize_outcome Let_def b m)
  from http_failure_writes_nothing [of "KokoroTTS_obj kokoro0" kokoro0 eleven0 env_status_500
      "''Hello''" "''out.ogg''" Map.empty world0] b st
  have k: "files (snd (tts_synthesize env_status_500 (KokoroTTS_obj kokoro0) ''Hello'' ''out.ogg''
     Map.empty world0)) = files world0"
    by auto
  from http_failure_writes_nothing [of "ElevenLabsTTS_obj eleven0" kokoro0 eleven0
      env_unreachable "''Hello''" "''out.mp3''" Map.empty world0] u
  have e: "fst (tts_synthesize env_unreachable (ElevenLabsTTS_obj eleven0) ''Hello'' ''out.mp3''
     Map.empty world0) = Inl (LibraryError ''ConnectionError'' ''Connection refused'')"
    by auto
  from st v k e show ?thesis
    by simp
qed



section \<open>Properties of the converter\<close>

lemma init_tool_absent:
  assumes "env_subprocess E [''ffmpeg'', ''-version''] w = Some e"
    and "is_CalledProcessError e \<or> is_FileNotFoundError e"
  shows "\<exists>ap w1. AudioProcessor_init E td w = (Inr ap, w1) \<and> \<not> ap_ffmpeg_available ap \<and>
           procs w1 = procs w @ [[''ffmpeg'', ''-version'']]"
  using assms
  by (auto simp: AudioProcessor_init_def try_except_if_def bind_def ret_def subprocess_run_def
      log_def Let_def)

text \<open>
  C6. A converter whose cached availability flag is false returns the input path
  from \<open>convert_for_platform\<close>, for every input path, platform and output path,
  without raising, without running a subprocess and without touching the world;
  \<open>convert_for_stt\<close> on the same converter logs the error and raises the
  \<open>RuntimeError\<close> that says the tool is required. The flag is set once, by the
  probe the constructor runs: when the probe finds no tool, the constructed converter
  behaves so in every later environment \<open>E'\<close>, even one where the tool has
  appeared.
\<close>

theorem converter_tool_absent:
  "(\<not> ap_ffmpeg_available self \<longrightarrow>
      convert_for_platform E' self input_path platform output_path w2 = (Inr input_path, w2) \<and>
      convert_for_stt E' self input_path output_path w2 =
        (Inl (RuntimeError ''FFmpeg required for audio conversion''),
         w2\<lparr>logs := logs w2 @ [(ERROR, ''FFmpeg not available for conversion'')]\<rparr>)) \<and>
   (env_subprocess E [''ffmpeg'', ''-version''] w = Some e \<and>
    (is_CalledProcessError e \<or> is_FileNotFoundError e) \<longrightarrow>
      (\<exists>ap w1. AudioProcessor_init E temp_dir w = (Inr ap, w1) \<and>
         procs w1 = procs w @ [[''ffmpeg'', ''-version'']] \<and>
         \<not> ap_ffmpeg_available ap \<and>
         convert_for_platform E' ap input_path platform output_path w2 = (Inr input_path, w2) \<and>
         convert_for_stt E' ap input_path output_path w2 =
           (Inl (RuntimeError ''FFmpeg required for audio conversion''),
            w2\<lparr>logs := logs w2 @ [(ERROR, ''FFmpeg not available for conversion'')]\<rparr>)))"
proof -
  have gen: "\<And>ap. \<not> ap_ffmpeg_available ap \<Longrightarrow>
      convert_for_platform E' ap input_path platform output_path w2 = (Inr input_path, w2) \<and>
      convert_for_stt E' ap input_path output_path w2 =
        (Inl (RuntimeError ''FFmpeg required for audio conversion''),
         w2\<lparr>logs := logs w2 @ [(ERROR, ''FFmpeg not available for conversion'')]\<rparr>)"
    by (simp add: convert_for_platform_def convert_for_stt_def ret_def bind_def log_def raise_def)
  show ?thesis
  proof (intro conjI impI)
    assume "\<not> ap_ffmpeg_available self"
    then show "convert_for_platform E' self input_path platform output_path w2 = (Inr input_path, w2)"
      using gen by blast
  next
    assume "\<not> ap_ffmpeg_available self"
    then show "convert_for_stt E' self input_path output_path w2 =
        (Inl (RuntimeError ''FFmpeg required for audio conversion''),
         w2\<lparr>logs := logs w2 @ [(ERROR, ''FFmpeg not available for conversion'')]\<rparr>)"
      using gen by blast
  next
    assume a: "env_subprocess E [''ffmpeg'', ''-version''] w = Some e \<and>
      (is_CalledProcessError e \<or> is_FileNotFoundError e)"
    then obtain ap w1 where i: "AudioProcessor_init E temp_dir w = (Inr ap, w1)"
      "\<not> ap_ffmpeg_available ap" "procs w1 = procs w @ [[''ffmpeg'', ''-version'']]"
      using init_tool_absent by blast
    with gen [of ap] show "\<exists>ap w1. AudioProcessor_init E temp_dir w = (Inr ap, w1) \<and>
         procs w1 = procs w @ [[''ffmpeg'', ''-version'']] \<and>
         \<not> ap_ffmpeg_available ap \<and>
         convert_for_platform E' ap input_path platform output_path w2 = (Inr input_path, w2) \<and>
         convert_for_stt E' ap input_path output_path w2 =
           (Inl (RuntimeError ''FFmpeg required for audio conversion''),
            w2\<lparr>logs := logs w2 @ [(ERROR, ''FFmpeg not available for conversion'')]\<rparr>)"
      by blast
  qed
qed

theorem converter_tool_absent_witness:
  "\<not> ap_ffmpeg_available \<lparr>ap_temp_dir = ''/tmp'', ap_ffmpeg_available = False\<rparr> \<and>
   env_subprocess env_no_ffmpeg [''ffmpeg'', ''-version''] world0 = Some (FileNotFoundError ''ffmpeg'') \<and>
   is_FileNotFoundError (FileNotFoundError ''ffmpeg'') \<and>
   convert_for_platform env0 \<lparr>ap_temp_dir = ''/tmp'', ap_ffmpeg_available = False\<rparr>
      ''reply.wav'' ''telegram'' None world0 = (Inr ''reply.wav'', world0) \<and>
   fst (convert_for_stt env0 \<lparr>ap_temp_dir = ''/tmp'', ap_ffmpeg_available = False\<rparr>
      ''reply.wav'' None world0) = Inl (RuntimeError ''FFmpeg required for audio conversion'') \<and>
   (\<exists>ap w1. AudioProcessor_init env_no_ffmpeg None world0 = (Inr ap, w1) \<and>
      convert_for_platform env0 ap ''reply.wav'' ''telegram'' None world0 = (Inr ''reply.wav'', world0))"
proof -
  have h1: "\<not> ap_ffmpeg_available \<lparr>ap_temp_dir = ''/tmp'', ap_ffmpeg_available = False\<rparr>"
    by simp
  have h2: "env_subprocess env_no_ffmpeg [''ffmpeg'', ''-version''] world0 =
      Some (FileNotFoundError ''ffmpeg'')"
    by (simp add: env_no_ffmpeg_def)
  have h3: "is_FileNotFoundError (FileNotFoundError ''ffmpeg'')"
    by simp
  from h1 h2 h3
    converter_tool_absent [of "\<lparr>ap_temp_dir = ''/tmp'', ap_ffmpeg_available = False\<rparr>"
      env0 "''reply.wav''" "''telegram''" None world0 env_no_ffmpeg world0
      "FileNotFoundError ''ffmpeg''" None]
  show ?thesis
    by (metis fst_conv)
qed

section \<open>Properties of the handler\<close>

lemma handler_synthesize_outcome:
  "VoiceHandler_synthesize self text output_file voice format w =
     (case synthesize (vh_tts self) text output_file
             ((case voice of None \<Rightarrow> Map.empty | Some v \<Rightarrow> [''voice'' \<mapsto> PStr v]) ++
              (case format of None \<Rightarrow> Map.empty | Some f \<Rightarrow> [''format'' \<mapsto> PStr f])) w of
        (Inl e, w1) \<Rightarrow> (Inl e, w1\<lparr>logs := logs w1 @ [(ERROR, ''Synthesis failed: '' @ exn_str e)]\<rparr>)
      | (Inr u, w1) \<Rightarrow>
          (Inr (), w1\<lparr>logs := logs w1 @
             [(INFO, ''Synthesized: '' @ take 50 text @ ''... -> '' @ output_file)]\<rparr>))"
proof -
  have k: "(let kwargs = Map.empty;
            kwargs = (case voice of None \<Rightarrow> kwargs | Some v \<Rightarrow> kwargs(''voice'' \<mapsto> PStr v));
            kwargs = (case format of None \<Rightarrow> kwargs | Some f \<Rightarrow> kwargs(''format'' \<mapsto> PStr f))
        in g kwargs) =
     g ((case voice of None \<Rightarrow> Map.empty | Some v \<Rightarrow> [''voice'' \<mapsto> PStr v]) ++
              (case format of None \<Rightarrow> Map.empty | Some f \<Rightarrow> [''format'' \<mapsto> PStr f]))" for g :: "config \<Rightarrow> (world, unit) prog"
    by (cases voice; cases format) (simp_all add: Let_def)
  show ?thesis
    unfolding VoiceHandler_synthesize_def k
    by (simp add: try_except_def bind_def log_def raise_def split: prod.splits sum.splits)
qed

lemma kokoro_calls:
  "calls (snd (KokoroTTS_synthesize E k text output_file kwargs w)) =
     calls w @ [HttpPost (py_str (kk_base_url k) @ ''/audio/speech'') []
        [(''model'', PStr ''kokoro''), (''input'', PStr text),
         (''voice'', arg kwargs ''voice'' (kk_voice k)),
         (''response_format'', arg kwargs ''format'' (kk_format k))]]"
  by (simp add: kokoro_synthesize_outcome Let_def split: sum.splits option.splits)

lemma handler_kokoro_calls:
  "calls (snd (VoiceHandler_synthesize (self\<lparr>vh_tts := tts_object E (KokoroTTS_obj k)\<rparr>)
       text output_file voice format w)) =
     calls w @ [HttpPost (py_str (kk_base_url k) @ ''/audio/speech'') []
        [(''model'', PStr ''kokoro''), (''input'', PStr text),
         (''voice'', case voice of None \<Rightarrow> kk_voice k | Some v \<Rightarrow> PStr v),
         (''response_format'', case format of None \<Rightarrow> kk_format k | Some f \<Rightarrow> PStr f)]]"
proof -
  let ?kw = "(case voice of None \<Rightarrow> Map.empty | Some v \<Rightarrow> [''voice'' \<mapsto> PStr v]) ++
              (case format of None \<Rightarrow> Map.empty | Some f \<Rightarrow> [''format'' \<mapsto> PStr f])"
  have a: "arg ?kw ''voice'' (kk_voice k) = (case voice of None \<Rightarrow> kk_voice k | Some v \<Rightarrow> PStr v)"
    by (cases voice; cases format) (simp_all add: arg_def)
  have b: "arg ?kw ''format'' (kk_format k) = (case format of None \<Rightarrow> kk_format k | Some f \<Rightarrow> PStr f)"
    by (cases voice; cases format) (simp_all add: arg_def)
  have c: "calls (snd (VoiceHandler_synthesize (self\<lparr>vh_tts := tts_object E (KokoroTTS_obj k)\<rparr>)
       text output_file voice format w)) =
      calls (snd (KokoroTTS_synthesize E k text output_file ?kw w))"
    by (simp add: handler_synthesize_outcome tts_object_def split: prod.splits sum.splits)
  show ?thesis
    unfolding c kokoro_calls a b ..
qed

text \<open>
  C5. \<open>VoiceHandler.synthesize\<close> hands the synthesizer a dictionary of overrides
  that has an entry \<open>voice\<close> exactly when the voice argument is not \<open>None\<close> and
  an entry \<open>format\<close> exactly when the format argument is not \<open>None\<close>, and
  nothing else; it logs and passes on the outcome. With the Kokoro adapter the request
  sent carries the override where one was given and the adapter's configured voice and
  format where none was. An override lasts for its call only: after a call with voice
  \<open>X\<close>, the request of a following call without override carries the adapter's
  configured voice.
\<close>

theorem synthesize_overrides:
  "VoiceHandler_synthesize self text output_file voice format w =
     (case synthesize (vh_tts self) text output_file
             ((case voice of None \<Rightarrow> Map.empty | Some v \<Rightarrow> [''voice'' \<mapsto> PStr v]) ++
              (case format of None \<Rightarrow> Map.empty | Some f \<Rightarrow> [''format'' \<mapsto> PStr f])) w of
        (Inl e, w1) \<Rightarrow> (Inl e, w1\<lparr>logs := logs w1 @ [(ERROR, ''Synthesis failed: '' @ exn_str e)]\<rparr>)
      | (Inr u, w1) \<Rightarrow>
          (Inr (), w1\<lparr>logs := logs w1 @
             [(INFO, ''Synthesized: '' @ take 50 text @ ''... -> '' @ output_file)]\<rparr>)) \<and>
   calls (snd (VoiceHandler_synthesize (self\<lparr>vh_tts := tts_object E (KokoroTTS_obj k)\<rparr>)
       text output_file voice format w)) =
     calls w @ [HttpPost (py_str (kk_base_url k) @ ''/audio/speech'') []
        [(''model'', PStr ''kokoro''), (''input'', PStr text),
         (''voice'', case voice of None \<Rightarrow> kk_voice k | Some v \<Rightarrow> PStr v),
         (''response_format'', case format of None \<Rightarrow> kk_format k | Some f \<Rightarrow> PStr f)]] \<and>
   calls (snd (VoiceHandler_synthesize (self\<lparr>vh_tts := tts_object E (KokoroTTS_obj k)\<rparr>)
       text p2 None None
       (snd (VoiceHandler_synthesize (self\<lparr>vh_tts := tts_object E (KokoroTTS_obj k)\<rparr>)
          text p (Some X) None w)))) =
     calls w @
       [HttpPost (py_str (kk_base_url k) @ ''/audio/speech'') []
          [(''model'', PStr ''kokoro''), (''input'', PStr text), (''voice'', PStr X),
           (''response_format'', kk_format k)],
        HttpPost (py_str (kk_base_url k) @ ''/audio/speech'') []
          [(''model'', PStr ''kokoro''), (''input'', PStr text), (''voice'', kk_voice k),
           (''response_format'', kk_format k)]]"
  by (simp add: handler_synthesize_outcome [symmetric] handler_kokoro_calls)

theorem synthesize_overrides_witness:
  "calls (snd (VoiceHandler_synthesize (handler_down\<lparr>vh_tts := tts_object env0 (KokoroTTS_obj kokoro0)\<rparr>)
       ''Hello'' ''b.ogg'' None None
       (snd (VoiceHandler_synthesize
          (handler_down\<lparr>vh_tts := tts_object env0 (KokoroTTS_obj kokoro0)\<rparr>)
          ''Hello'' ''a.ogg'' (Some ''am_adam'') None world0)))) =
     [HttpPost ''http://localhost:8880/v1/audio/speech'' []
        [(''model'', PStr ''kokoro''), (''input'', PStr ''Hello''), (''voice'', PStr ''am_adam''),
         (''response_format'', PStr ''ogg'')],
      HttpPost ''http://localhost:8880/v1/audio/speech'' []
        [(''model'', PStr ''kokoro''), (''input'', PStr ''Hello''), (''voice'', PStr ''af_bella''),
         (''response_format'', PStr ''ogg'')]]"
proof -
  have w0: "calls world0 = []"
    by (simp add: world0_def)
  have k: "py_str (kk_base_url kokoro0) = ''http://localhost:8880/v1''"
    "kk_voice kokoro0 = PStr ''af_bella''" "kk_format kokoro0 = PStr ''ogg''"
    by (simp_all add: kokoro0_def)
  note synthesize_overrides [of handler_down "''Hello''" "''a.ogg''" "Some ''am_adam''" None world0
      env0 kokoro0 "''b.ogg''" "''a.ogg''" "''am_adam''", THEN conjunct2, THEN conjunct2]
  then show ?thesis
    unfolding w0 k by simp
qed

text \<open>
  C7. \<open>VoiceHandler.get_voices\<close> never raises: when the synthesizer's
  \<open>get_voices\<close> raises, in whatever way, the handler logs the error and returns
  the empty list; otherwise it returns the synthesizer's list. The Kokoro adapter's own
  \<open>get_voices\<close> raises the exception of the request when the backend cannot be
  reached, and a handler over that adapter then returns the empty list.
\<close>

theorem get_voices_swallows:
  "(\<exists>vs w'. VoiceHandler_get_voices self w = (Inr vs, w') \<and>
      (\<forall>e w1. get_voices (vh_tts self) w = (Inl e, w1) \<longrightarrow>
         vs = JList [] \<and>
         w' = w1\<lparr>logs := logs w1 @ [(ERROR, ''Failed to get voices: '' @ exn_str e)]\<rparr>) \<and>
      (\<forall>v w1. get_voices (vh_tts self) w = (Inr v, w1) \<longrightarrow> vs = v \<and> w' = w1)) \<and>
   (env_backend E (HttpGet (py_str (kk_base_url k) @ ''/audio/voices'') []) w = Inl e \<longrightarrow>
      fst (KokoroTTS_get_voices E k w) = Inl e \<and>
      fst (get_voices (tts_object E (KokoroTTS_obj k)) w) = Inl e \<and>
      (vh_tts self = tts_object E (KokoroTTS_obj k) \<longrightarrow>
         fst (VoiceHandler_get_voices self w) = Inr (JList [])))"
  by (cases "get_voices (vh_tts self) w"; cases "fst (get_voices (vh_tts self) w)")
    (auto simp: VoiceHandler_get_voices_def try_except_def bind_def ret_def log_def
      KokoroTTS_get_voices_def send_def tts_object_def)

theorem get_voices_swallows_witness:
  "env_backend env_unreachable (HttpGet (py_str (kk_base_url kokoro0) @ ''/audio/voices'') []) world0 =
     Inl (LibraryError ''ConnectionError'' ''Connection refused'') \<and>
   fst (KokoroTTS_get_voices env_unreachable kokoro0 world0) =
     Inl (LibraryError ''ConnectionError'' ''Connection refused'') \<and>
   VoiceHandler_get_voices
     (VoiceHandler_init \<lparr>transcribe = (\<lambda>p. raise (RuntimeError ''unused''))\<rparr>
        (tts_object env_unreachable (KokoroTTS_obj kokoro0)) None None) world0 =
     (Inr (JList []),
      world0\<lparr>logs := [(ERROR, ''Failed to get voices: Connection refused'')],
             calls := [HttpGet ''http://localhost:8880/v1/audio/voices'' []]\<rparr>)"
proof -
  let ?h = "VoiceHandler_init \<lparr>transcribe = (\<lambda>p. raise (RuntimeError ''unused''))\<rparr>
        (tts_object env_unreachable (KokoroTTS_obj kokoro0)) None None"
  have h1: "env_backend env_unreachable
      (HttpGet (py_str (kk_base_url kokoro0) @ ''/audio/voices'') []) world0 =
     Inl (LibraryError ''ConnectionError'' ''Connection refused'')"
    by (simp add: env_unreachable_def)
  have h2: "get_voices (vh_tts ?h) world0 =
      (Inl (LibraryError ''ConnectionError'' ''Connection refused''),
       world0\<lparr>calls := [HttpGet ''http://localhost:8880/v1/audio/voices'' []]\<rparr>)"
    by (simp add: VoiceHandler_init_def tts_object_def KokoroTTS_get_voices_def bind_def send_def
        env_unreachable_def kokoro0_def world0_def)
  from h1 h2 get_voices_swallows [of ?h world0 env_unreachable kokoro0
      "LibraryError ''ConnectionError'' ''Connection refused''"]
  show ?thesis
    by (auto simp: world0_def)
qed

lemma try_log_unit:
  "try_except m (\<lambda>e. lift (log lv (f e))) s =
     (case m s of
        (Inl e, s') \<Rightarrow> (Inr (), (fst s', (snd s')\<lparr>logs := logs (snd s') @ [(lv, f e)]\<rparr>))
      | (Inr u, s') \<Rightarrow> (Inr (), s'))"
  by (simp add: try_except_def lift_def log_def split: prod.splits sum.splits)

lemma stt_block_results:
  "fst (snd (stt_block E self (r, w))) = r \<or> fst (snd (stt_block E self (r, w))) = r(''stt'' \<mapsto> True)"
  by (auto simp: stt_block_def bind_def lift_def set_result_def import_module_def ret_def raise_def
      NamedTemporaryFile_def wave_write_def write_file_def os_unlink_def Let_def
      split: prod.splits sum.splits option.splits if_splits)

lemma stt_block_fails:
  assumes "\<forall>p w1. \<exists>e. fst (transcribe (vh_stt self) p w1) = Inl e"
  shows "fst (snd (stt_block E self (r, w))) = r"
proof -
  have t: "\<And>p w1 x w2. transcribe (vh_stt self) p w1 \<noteq> (Inr x, w2)"
    using assms by (metis fst_conv sum.distinct(1))
  show ?thesis
    by (auto simp: stt_block_def bind_def lift_def set_result_def import_module_def ret_def
        raise_def NamedTemporaryFile_def wave_write_def write_file_def os_unlink_def Let_def t
        split: prod.splits sum.splits option.splits if_splits)
qed

lemma tts_block_results:
  "fst (snd (tts_block E self (r, w))) = r \<or> fst (snd (tts_block E self (r, w))) = r(''tts'' \<mapsto> True)"
  by (auto simp: tts_block_def bind_def lift_def set_result_def ret_def raise_def
      NamedTemporaryFile_def os_unlink_def Let_def
      split: prod.splits sum.splits option.splits if_splits)

lemma tts_block_fails:
  assumes "\<forall>t p k w1. \<exists>e. fst (synthesize (vh_tts self) t p k w1) = Inl e"
  shows "fst (snd (tts_block E self (r, w))) = r"
proof -
  have t: "\<And>t p k w1 x w2. synthesize (vh_tts self) t p k w1 \<noteq> (Inr x, w2)"
    using assms by (metis fst_conv sum.distinct(1))
  show ?thesis
    by (auto simp: tts_block_def bind_def lift_def set_result_def ret_def
        raise_def NamedTemporaryFile_def os_unlink_def Let_def t
        split: prod.splits sum.splits option.splits if_splits)
qed

lemma test_connection_blocks:
  "VoiceHandler_test_connection E self =
     with_results [''stt'' \<mapsto> False, ''tts'' \<mapsto> False]
       (bind (try_except (stt_block E self)
                (\<lambda>e. lift (log ERROR (''STT test failed: '' @ exn_str e)))) (\<lambda>_.
        bind (try_except (tts_block E self)
                (\<lambda>e. lift (log ERROR (''TTS test failed: '' @ exn_str e)))) (\<lambda>_.
        get_results)))"
  by (simp add: VoiceHandler_test_connection_def stt_block_def tts_block_def)

lemma test_connection_result:
  "\<exists>w'. VoiceHandler_test_connection E self w =
     (Inr (fst (snd (tts_block E self
        (fst (snd (stt_block E self ([''stt'' \<mapsto> False, ''tts'' \<mapsto> False], w))), 
         snd (snd (try_except (stt_block E self)
                (\<lambda>e. lift (log ERROR (''STT test failed: '' @ exn_str e)))
                ([''stt'' \<mapsto> False, ''tts'' \<mapsto> False], w))))))), w')"
  unfolding test_connection_blocks
  by (simp add: with_results_def bind_def try_log_unit get_results_def
      split: prod.splits sum.splits)

lemma dom_results_step:
  assumes "dom r = {a, b}" and "r' = r \<or> r' = r(k \<mapsto> v)" and "k = a \<or> k = b"
  shows "dom r' = {a, b}"
proof -
  from assms(3) have "insert k {a, b} = {a, b}"
    by blast
  with assms(1) have "dom (r(k \<mapsto> v)) = {a, b}"
    by simp
  with assms(1,2) show ?thesis
    by blast
qed

lemma results_keep:
  "r' = r \<or> r' = r(k \<mapsto> v) \<Longrightarrow> k \<noteq> j \<Longrightarrow> r' j = r j"
  by auto

lemma handler_down_tts:
  "\<exists>e. fst (synthesize (vh_tts handler_down) t p k w1) = Inl e"
  by (simp add: handler_down_def VoiceHandler_init_def tts_object_def kokoro_synthesize_outcome
      Let_def env_unreachable_def)

lemma handler_down_stt:
  "\<exists>e. fst (transcribe (vh_stt handler_down) p w1) = Inl e"
  by (simp add: handler_down_def VoiceHandler_init_def stt_down_def raise_def)

text \<open>
  C3. \<open>VoiceHandler.test_connection\<close> never raises, whatever the transcriber, the
  synthesizer and the file system do, each of them possibly raising any exception. It
  returns a dictionary whose keys are exactly \<open>stt\<close> and \<open>tts\<close>, with boolean
  values; when the transcriber always raises, \<open>stt\<close> is false, and when the
  synthesizer always raises, \<open>tts\<close> is false.
\<close>

theorem test_connection_never_raises:
  "\<exists>r w'. VoiceHandler_test_connection E self w = (Inr r, w') \<and>
     dom r = {''stt'', ''tts''} \<and>
     ((\<forall>p w1. \<exists>e. fst (transcribe (vh_stt self) p w1) = Inl e) \<longrightarrow> r ''stt'' = Some False) \<and>
     ((\<forall>t p k w1. \<exists>e. fst (synthesize (vh_tts self) t p k w1) = Inl e) \<longrightarrow>
        r ''tts'' = Some False)"
proof -
  define r0 :: results where "r0 = [''stt'' \<mapsto> False, ''tts'' \<mapsto> False]"
  define r1 where "r1 = fst (snd (stt_block E self (r0, w)))"
  define w1 where "w1 = snd (snd (try_except (stt_block E self)
                (\<lambda>e. lift (log ERROR (''STT test failed: '' @ exn_str e))) (r0, w)))"
  define r2 where "r2 = fst (snd (tts_block E self (r1, w1)))"
  have "\<exists>w'. VoiceHandler_test_connection E self w = (Inr r2, w')"
    unfolding r2_def r1_def w1_def r0_def by (rule test_connection_result)
  then obtain w' where res: "VoiceHandler_test_connection E self w = (Inr r2, w')" ..
  have r1: "r1 = r0 \<or> r1 = r0(''stt'' \<mapsto> True)"
    unfolding r1_def by (rule stt_block_results)
  have r2: "r2 = r1 \<or> r2 = r1(''tts'' \<mapsto> True)"
    unfolding r2_def by (rule tts_block_results)
  have d0: "dom r0 = {''stt'', ''tts''}"
    unfolding r0_def by (simp add: insert_commute)
  have d1: "dom r1 = {''stt'', ''tts''}"
    by (rule dom_results_step [OF d0 r1]) simp
  have d: "dom r2 = {''stt'', ''tts''}"
    by (rule dom_results_step [OF d1 r2]) simp
  have s: "(\<forall>p w1. \<exists>e. fst (transcribe (vh_stt self) p w1) = Inl e) \<longrightarrow> r2 ''stt'' = Some False"
  proof
    assume "\<forall>p w1. \<exists>e. fst (transcribe (vh_stt self) p w1) = Inl e"
    then have "r1 = r0" unfolding r1_def by (rule stt_block_fails)
    then have "r1 ''stt'' = Some False" by (simp add: r0_def)
    moreover have "r2 ''stt'' = r1 ''stt''" by (rule results_keep [OF r2]) simp
    ultimately show "r2 ''stt'' = Some False" by simp
  qed
  have t: "(\<forall>t p k w1. \<exists>e. fst (synthesize (vh_tts self) t p k w1) = Inl e) \<longrightarrow>
      r2 ''tts'' = Some False"
  proof
    assume "\<forall>t p k w1. \<exists>e. fst (synthesize (vh_tts self) t p k w1) = Inl e"
    then have e: "r2 = r1" unfolding r2_def by (rule tts_block_fails)
    have "r1 ''tts'' = r0 ''tts''" by (rule results_keep [OF r1]) simp
    with e show "r2 ''tts'' = Some False" by (simp add: r0_def)
  qed
  show ?thesis
  proof (intro exI conjI)
    show "VoiceHandler_test_connection E self w = (Inr r2, w')" by (rule res)
    show "dom r2 = {''stt'', ''tts''}" by (rule d)
    show "(\<forall>p w1. \<exists>e. fst (transcribe (vh_stt self) p w1) = Inl e) \<longrightarrow>
        r2 ''stt'' = Some False" by (rule s)
    show "(\<forall>t p k w1. \<exists>e. fst (synthesize (vh_tts self) t p k w1) = Inl e) \<longrightarrow>
        r2 ''tts'' = Some False" by (rule t)
  qed
qed

theorem test_connection_never_raises_witness:
  "(\<forall>p w1. \<exists>e. fst (transcribe (vh_stt handler_down) p w1) = Inl e) \<and>
   (\<forall>t p k w1. \<exists>e. fst (synthesize (vh_tts handler_down) t p k w1) = Inl e) \<and>
   (\<exists>w'. VoiceHandler_test_connection env_unreachable handler_down world0 =
      (Inr [''stt'' \<mapsto> False, ''tts'' \<mapsto> False], w'))"
proof -
  have s: "\<forall>p w1. \<exists>e. fst (transcribe (vh_stt handler_down) p w1) = Inl e"
    using handler_down_stt by blast
  have t: "\<forall>t p k w1. \<exists>e. fst (synthesize (vh_tts handler_down) t p k w1) = Inl e"
    using handler_down_tts by blast
  have "\<exists>r w'. VoiceHandler_test_connection env_unreachable handler_down world0 = (Inr r, w') \<and>
     dom r = {''stt'', ''tts''} \<and>
     ((\<forall>p w1. \<exists>e. fst (transcribe (vh_stt handler_down) p w1) = Inl e) \<longrightarrow>
        r ''stt'' = Some False) \<and>
     ((\<forall>t p k w1. \<exists>e. fst (synthesize (vh_tts handler_down) t p k w1) = Inl e) \<longrightarrow>
        r ''tts'' = Some False)"
    by (rule test_connection_never_raises)
  then obtain r where "\<exists>w'. VoiceHandler_test_connection env_unreachable handler_down world0 = (Inr r, w') \<and>
     dom r = {''stt'', ''tts''} \<and>
     ((\<forall>p w1. \<exists>e. fst (transcribe (vh_stt handler_down) p w1) = Inl e) \<longrightarrow>
        r ''stt'' = Some False) \<and>
     ((\<forall>t p k w1. \<exists>e. fst (synthesize (vh_tts handler_down) t p k w1) = Inl e) \<longrightarrow>
        r ''tts'' = Some False)" ..
  then obtain w' where a: "VoiceHandler_test_connection env_unreachable handler_down world0 = (Inr r, w') \<and>
     dom r = {''stt'', ''tts''} \<and>
     ((\<forall>p w1. \<exists>e. fst (transcribe (vh_stt handler_down) p w1) = Inl e) \<longrightarrow>
        r ''stt'' = Some False) \<and>
     ((\<forall>t p k w1. \<exists>e. fst (synthesize (vh_tts handler_down) t p k w1) = Inl e) \<longrightarrow>
        r ''tts'' = Some False)" ..
  have r1: "VoiceHandler_test_connection env_unreachable handler_down world0 = (Inr r, w')"
    using a by (rule conjunct1)
  have r2: "dom r = {''stt'', ''tts''}"
    using a by (rule conjunct2 [THEN conjunct1])
  have r3: "r ''stt'' = Some False"
    using a [THEN conjunct2, THEN conjunct2, THEN conjunct1] s by (rule mp)
  have r4: "r ''tts'' = Some False"
    using a [THEN conjunct2, THEN conjunct2, THEN conjunct2] t by (rule mp)
  have "r = [''stt'' \<mapsto> False, ''tts'' \<mapsto> False]"
  proof
    fix k
    show "r k = [''stt'' \<mapsto> False, ''tts'' \<mapsto> False] k"
    proof (cases "k = ''stt'' \<or> k = ''tts''")
      case True
      with r3 r4 show ?thesis by auto
    next
      case False
      with r2 have "r k = None" by blast
      with False show ?thesis by simp
    qed
  qed
  with r1 have "\<exists>w'. VoiceHandler_test_connection env_unreachable handler_down world0 =
      (Inr [''stt'' \<mapsto> False, ''tts'' \<mapsto> False], w')"
    by (intro exI [of _ w']) simp
  with s t show ?thesis
    by (intro conjI)
qed

end
